theory Spec2Isabelle
  imports Main "HOL-Library.Sublist"
begin

section \<open>JavaScript values\<close>

text \<open>
  A JavaScript string is modelled as a \<^typ>\<open>string\<close>: a list of units, \<^verbatim>\<open>length\<close>
  counting units as \<^verbatim>\<open>String.prototype.length\<close> does. A value that may be
  \<^verbatim>\<open>undefined\<close> or \<^verbatim>\<open>null\<close> is an option. A string is truthy when it is not
  empty.
\<close>

text \<open>The white space and line terminators that \<^verbatim>\<open>trim()\<close> strips, among the units
  a \<^typ>\<open>char\<close> can hold: tab, line feed, vertical tab, form feed, carriage return,
  space and no-break space.\<close>

definition is_space :: "char \<Rightarrow> bool" where
  "is_space c = (c \<in> set [CHR 0x09, CHR 0x0A, CHR 0x0B, CHR 0x0C, CHR 0x0D, CHR 0x20, CHR 0xA0])"

definition trim :: "string \<Rightarrow> string" where
  "trim s = rev (dropWhile is_space (rev (dropWhile is_space s)))"

text \<open>\<^verbatim>\<open>text.length > cap ? text.substring(0, cap) + '...' : text\<close>, the expression
  every parser that truncates uses, with cap 100 for question text and 50 for titles.\<close>

definition preview :: "nat \<Rightarrow> string \<Rightarrow> string" where
  "preview cap text = (if cap < length text then take cap text @ ''...'' else text)"

text \<open>\<^verbatim>\<open>text.includes(sub)\<close>.\<close>

fun str_includes :: "string \<Rightarrow> string \<Rightarrow> bool" where
  "str_includes [] sub = (sub = [])"
| "str_includes (c # cs) sub = (prefix sub (c # cs) \<or> str_includes cs sub)"

text \<open>Case folding of the \<^verbatim>\<open>i\<close> flag on the letters A to Z; a unit outside ASCII
  never folds to an ASCII letter.\<close>

definition toLowerCase :: "char \<Rightarrow> char" where
  "toLowerCase c =
     (if 65 \<le> (of_char c :: nat) \<and> (of_char c :: nat) \<le> 90
      then char_of (of_char c + 32 :: nat) else c)"

text \<open>\<^verbatim>\<open>text.match(/^(A|B|C)/i)\<close> as a truth value: one of the alternatives, given
  in lower case, starts the folded text.\<close>

definition match_start_ci :: "string list \<Rightarrow> string \<Rightarrow> bool" where
  "match_start_ci alts text = list_ex (\<lambda>a. prefix a (map toLowerCase text)) alts"

text \<open>
  \<^verbatim>\<open>href.match(/(L1|L2|...)([C]+)/)\<close> for literal alternatives and a character class:
  the leftmost position where an alternative (tried in order) is followed by at least one
  unit of the class; the capture is the longest run of units of the class there.
\<close>

fun match_capture :: "string list \<Rightarrow> (char \<Rightarrow> bool) \<Rightarrow> string \<Rightarrow> string option" where
  "match_capture alts cls [] = None"
| "match_capture alts cls (c # cs) =
     (case find (\<lambda>a. prefix a (c # cs) \<and> takeWhile cls (drop (length a) (c # cs)) \<noteq> []) alts of
        Some a \<Rightarrow> Some (takeWhile cls (drop (length a) (c # cs)))
      | None \<Rightarrow> match_capture alts cls cs)"

text \<open>The character classes \<^verbatim>\<open>[^\/]\<close> and \<^verbatim>\<open>[^\/\?]\<close>.\<close>

definition not_slash :: "char \<Rightarrow> bool" where
  "not_slash c = (c \<noteq> CHR ''/'')"

definition not_slash_query :: "char \<Rightarrow> bool" where
  "not_slash_query c = (c \<noteq> CHR ''/'' \<and> c \<noteq> CHR ''?'')"

text \<open>A number in a template literal or a string concatenation: its decimal digits.\<close>

definition digit :: "nat \<Rightarrow> char" where
  "digit n = ''0123456789'' ! n"

function string_of_nat :: "nat \<Rightarrow> string" where
  "string_of_nat n =
     (if n < 10 then [digit n] else string_of_nat (n div 10) @ [digit (n mod 10)])"
  by pat_completeness auto
termination
  by (relation "measure id") auto

declare string_of_nat.simps [simp del]

text \<open>\<^verbatim>\<open>Array.prototype.forEach\<close> with the element and its index, threading the
  variables the callback assigns.\<close>

fun forEach :: "('a \<Rightarrow> nat \<Rightarrow> 's \<Rightarrow> 's) \<Rightarrow> 'a list \<Rightarrow> nat \<Rightarrow> 's \<Rightarrow> 's" where
  "forEach f [] index s = s"
| "forEach f (x # xs) index s = forEach f xs (Suc index) (f x index s)"

section \<open>The page\<close>

text \<open>
  The page is the host's: the parsers reach it only through the DOM operations below.
  A node is an address; the document gives, for the current page,
  \<^item> \<^verbatim>\<open>document.querySelectorAll(selector)\<close>, in document order;
  \<^item> \<^verbatim>\<open>element.querySelector(selector)\<close>;
  \<^item> \<^verbatim>\<open>element.textContent\<close>;
  \<^item> \<^verbatim>\<open>element.id\<close> (empty when the element has none), the one attribute the
    parsers write;
  \<^item> \<^verbatim>\<open>element.href\<close> (\<^verbatim>\<open>undefined\<close> on an element that is not a link);
  \<^item> \<^verbatim>\<open>element.closest('a')\<close>;
  \<^item> \<^verbatim>\<open>element.value\<close> (\<^verbatim>\<open>undefined\<close> on an element that is not a form control);
  \<^item> \<^verbatim>\<open>element.classList.contains(name)\<close>;
  \<^item> \<^verbatim>\<open>window.location.href\<close>;
  \<^item> the elements of the page in document order, for \<^verbatim>\<open>getElementById\<close>;
  \<^item> whether a selector parses: \<^verbatim>\<open>querySelector\<close> raises \<^verbatim>\<open>SyntaxError\<close> on one
    that does not.
  None of the selectors below mentions the id attribute, so writing an id changes no
  query result.
\<close>

type_synonym node = nat

record document =
  querySelectorAll :: "string \<Rightarrow> node list"
  node_querySelector :: "node \<Rightarrow> string \<Rightarrow> node option"
  textContent :: "node \<Rightarrow> string"
  node_id :: "node \<Rightarrow> string"
  href :: "node \<Rightarrow> string option"
  closest_a :: "node \<Rightarrow> node option"
  node_value :: "node \<Rightarrow> string option"
  classList_contains :: "node \<Rightarrow> string \<Rightarrow> bool"
  location_href :: string
  all_elements :: "node list"
  selector_parses :: "string \<Rightarrow> bool"

text \<open>\<^verbatim>\<open>document.querySelector(selector)\<close> with a selector written in the source (all of
  them parse): the first match in document order.\<close>

definition querySelector :: "document \<Rightarrow> string \<Rightarrow> node option" where
  "querySelector d selector =
     (case querySelectorAll d selector of [] \<Rightarrow> None | n # _ \<Rightarrow> Some n)"

record question =
  q_id :: string
  q_text :: string

record chat =
  c_id :: string
  c_title :: string
  c_url :: "string option"

text \<open>\<^verbatim>\<open>message.id || fallback\<close> and \<^verbatim>\<open>if (!message.id) message.id = messageId\<close>.\<close>

definition id_or :: "document \<Rightarrow> node \<Rightarrow> string \<Rightarrow> string" where
  "id_or d message fallback = (if node_id d message \<noteq> [] then node_id d message else fallback)"

definition stamp_if_absent :: "node \<Rightarrow> string \<Rightarrow> document \<Rightarrow> document" where
  "stamp_if_absent message messageId d =
     (if node_id d message = [] then d\<lparr>node_id := (node_id d)(message := messageId)\<rparr> else d)"

text \<open>\<^verbatim>\<open>a || b\<close> on elements: an element is truthy, \<^verbatim>\<open>null\<close> is not.\<close>

definition or_else :: "node option \<Rightarrow> node option \<Rightarrow> node option" where
  "or_else a b = (case a of Some n \<Rightarrow> Some n | None \<Rightarrow> b)"

definition or_node :: "node option \<Rightarrow> node \<Rightarrow> node" where
  "or_node a n = (case a of Some e \<Rightarrow> e | None \<Rightarrow> n)"

text \<open>Truthiness of a string that may be \<^verbatim>\<open>undefined\<close>.\<close>

definition truthy :: "string option \<Rightarrow> bool" where
  "truthy v = (case v of Some s \<Rightarrow> s \<noteq> [] | None \<Rightarrow> False)"

type_synonym qstate = "document \<times> question list"

section \<open>The parsers: \<^verbatim>\<open>getQuestions\<close>\<close>

subsection \<open>ChatGPT\<close>

definition ChatGPT_userMessages :: "document \<Rightarrow> node list" where
  \<open>ChatGPT_userMessages d = querySelectorAll d ''[data-message-author-role="user"]''\<close>

definition ChatGPT_question :: "node \<Rightarrow> nat \<Rightarrow> qstate \<Rightarrow> qstate" where
  \<open>ChatGPT_question message index st =
     (let d = fst st; questions = snd st in
      case node_querySelector d message
             ''.prose, [class*="markdown"], .whitespace-pre-wrap, .break-words'' of
        None \<Rightarrow> st
      | Some textElement \<Rightarrow>
          if trim (textContent d textElement) = [] then st
          else
            let text = trim (textContent d textElement);
                messageId = id_or d message (''chatgpt-user-'' @ string_of_nat index);
                d' = stamp_if_absent message messageId d
            in (d', questions @ [\<lparr>q_id = messageId, q_text = preview 100 text\<rparr>]))\<close>

definition ChatGPT_getQuestions :: "document \<Rightarrow> qstate" where
  "ChatGPT_getQuestions d = forEach ChatGPT_question (ChatGPT_userMessages d) 0 (d, [])"

subsection \<open>DeepSeek\<close>

definition DeepSeek_userMessages :: "document \<Rightarrow> node list" where
  \<open>DeepSeek_userMessages d = querySelectorAll d ''.user-message, [data-author="user"]''\<close>

definition DeepSeek_question :: "node \<Rightarrow> nat \<Rightarrow> qstate \<Rightarrow> qstate" where
  \<open>DeepSeek_question message index st =
     (let d = fst st; questions = snd st in
      case node_querySelector d message ''.content, .message-text'' of
        None \<Rightarrow> st
      | Some textElement \<Rightarrow>
          if trim (textContent d textElement) = [] then st
          else
            let text = trim (textContent d textElement);
                messageId = ''deepseek-user-'' @ string_of_nat index;
                d' = d\<lparr>node_id := (node_id d)(message := messageId)\<rparr>
            in (d', questions @ [\<lparr>q_id = messageId, q_text = preview 100 text\<rparr>]))\<close>

definition DeepSeek_getQuestions :: "document \<Rightarrow> qstate" where
  "DeepSeek_getQuestions d = forEach DeepSeek_question (DeepSeek_userMessages d) 0 (d, [])"

subsection \<open>Perplexity\<close>

definition Perplexity_userMessages :: "document \<Rightarrow> node list" where
  \<open>Perplexity_userMessages d =
     (let userSelectors =
            [''[data-testid="user-query"]'', ''.user-query'', ''.query'', ''[class*="query"]'',
             ''.user-message'', ''[class*="user-input"]''];
          userMessages = concat (map (querySelectorAll d) userSelectors);
          threadQueries = querySelectorAll d
            ''.thread .query, [class*="thread"] [class*="query"], .search-query, .question''
      in userMessages @ filter (\<lambda>query. trim (textContent d query) \<noteq> []) threadQueries)\<close>

definition Perplexity_question :: "node \<Rightarrow> nat \<Rightarrow> qstate \<Rightarrow> qstate" where
  \<open>Perplexity_question message index st =
     (let d = fst st; questions = snd st;
          textElement = or_node (node_querySelector d message ''.text, .content, .query-text'') message
      in if trim (textContent d textElement) = [] then st
         else
           let text = trim (textContent d textElement) in
           if length text < 10 then st
           else
             let messageId = id_or d message (''perplexity-query-'' @ string_of_nat index);
                 d' = stamp_if_absent message messageId d
             in (d', questions @ [\<lparr>q_id = messageId, q_text = preview 100 text\<rparr>]))\<close>

definition Perplexity_getQuestions :: "document \<Rightarrow> qstate" where
  "Perplexity_getQuestions d = forEach Perplexity_question (Perplexity_userMessages d) 0 (d, [])"

subsection \<open>Claude\<close>

definition Claude_userMessages :: "document \<Rightarrow> node list" where
  \<open>Claude_userMessages d =
     (let userMessages = querySelectorAll d
            ''[data-is-streaming="false"] .font-user-message, .human-message, [class*="user"], [data-testid*="user"]'';
          alternativeSelectors =
            [''.prose.break-words:not(.font-claude-message)'',
             ''.whitespace-pre-wrap:not([class*="assistant"])'',
             ''.message-content[data-author="human"]''];
          allUserMessages =
            (if length userMessages = 0 then concat (map (querySelectorAll d) alternativeSelectors)
             else userMessages);
          conversationMessages = querySelectorAll d
            ''.conversation .message, [class*="conversation"] [class*="message"]''
      in allUserMessages @
         filter (\<lambda>msg. \<not> str_includes (textContent d msg) ''Claude:'' \<and>
                       node_querySelector d msg ''[class*="assistant"]'' = None \<and>
                       node_querySelector d msg ''.font-claude-message'' = None)
           conversationMessages)\<close>

definition Claude_question :: "node \<Rightarrow> nat \<Rightarrow> qstate \<Rightarrow> qstate" where
  \<open>Claude_question message index st =
     (let d = fst st; questions = snd st;
          textElement = or_node
            (node_querySelector d message ''.prose, [class*="markdown"], .whitespace-pre-wrap'') message
      in if trim (textContent d textElement) = [] then st
         else
           let text = trim (textContent d textElement) in
           if length text < 10 \<or> match_start_ci [''claude:'', ''assistant:'', ''ai:''] text then st
           else
             let messageId = id_or d message (''claude-user-'' @ string_of_nat index);
                 d' = stamp_if_absent message messageId d
             in (d', questions @ [\<lparr>q_id = messageId, q_text = preview 100 text\<rparr>]))\<close>

definition Claude_getQuestions :: "document \<Rightarrow> qstate" where
  "Claude_getQuestions d = forEach Claude_question (Claude_userMessages d) 0 (d, [])"

subsection \<open>Gemini\<close>

definition Gemini_userMessages :: "document \<Rightarrow> node list" where
  \<open>Gemini_userMessages d =
     (let userSelectors =
            [''[data-test-id="user-message"]'', ''.user-message'', ''[class*="user"]'',
             ''[data-role="user"]'', ''.human-message'', ''.prompt-input''];
          userMessages = concat (map (querySelectorAll d) userSelectors);
          conversationMessages = querySelectorAll d
            ''.conversation [class*="message"], [class*="chat"] [class*="message"], .response-container [class*="user"]''
      in userMessages @
         filter (\<lambda>msg. textContent d msg \<noteq> [] \<and>
                       node_querySelector d msg ''[class*="model"]'' = None \<and>
                       node_querySelector d msg ''[class*="assistant"]'' = None \<and>
                       \<not> str_includes (textContent d msg) ''Gemini:'' \<and>
                       \<not> str_includes (textContent d msg) ''Bard:'')
           conversationMessages)\<close>

definition Gemini_question :: "node \<Rightarrow> nat \<Rightarrow> qstate \<Rightarrow> qstate" where
  \<open>Gemini_question message index st =
     (let d = fst st; questions = snd st;
          textElement = or_node
            (node_querySelector d message ''.markdown, .prose, .message-content, .text-content'') message
      in if trim (textContent d textElement) = [] then st
         else
           let text = trim (textContent d textElement) in
           if length text < 10 \<or> match_start_ci [''gemini:'', ''bard:'', ''ai:''] text then st
           else
             let messageId = id_or d message (''gemini-user-'' @ string_of_nat index);
                 d' = stamp_if_absent message messageId d
             in (d', questions @ [\<lparr>q_id = messageId, q_text = preview 100 text\<rparr>]))\<close>

definition Gemini_getQuestions :: "document \<Rightarrow> qstate" where
  "Gemini_getQuestions d = forEach Gemini_question (Gemini_userMessages d) 0 (d, [])"

subsection \<open>Copilot\<close>

definition Copilot_userMessages :: "document \<Rightarrow> node list" where
  \<open>Copilot_userMessages d =
     (let userSelectors =
            [''[data-author="user"]'', ''.user-message'', ''[class*="user"]'', ''.human-message'',
             ''[data-testid="user-message"]'', ''.msg-user''];
          userMessages = concat (map (querySelectorAll d) userSelectors);
          bingSelectors =
            [''.ac-textBlock .ac-textRun'', ''.cib-serp-main [class*="user"]'',
             ''.b_sydConvCont [data-author="user"]'', ''.cib-chat-turn[data-author="user"]'']
      in userMessages @ concat (map (querySelectorAll d) bingSelectors))\<close>

definition Copilot_question :: "node \<Rightarrow> nat \<Rightarrow> qstate \<Rightarrow> qstate" where
  \<open>Copilot_question message index st =
     (let d = fst st; questions = snd st;
          textElement = or_node
            (node_querySelector d message ''.ac-textRun, .message-content, .text-content, p, div'') message
      in if trim (textContent d textElement) = [] then st
         else
           let text = trim (textContent d textElement) in
           if length text < 10 \<or> match_start_ci [''copilot:'', ''bing:'', ''ai:''] text then st
           else
             let messageId = id_or d message (''copilot-user-'' @ string_of_nat index);
                 d' = stamp_if_absent message messageId d
             in (d', questions @ [\<lparr>q_id = messageId, q_text = preview 100 text\<rparr>]))\<close>

definition Copilot_getQuestions :: "document \<Rightarrow> qstate" where
  "Copilot_getQuestions d = forEach Copilot_question (Copilot_userMessages d) 0 (d, [])"

subsection \<open>Meta AI\<close>

definition Meta_userMessages :: "document \<Rightarrow> node list" where
  \<open>Meta_userMessages d =
     (let userSelectors =
            [''[data-testid="user-message"]'', ''.user-message'', ''[class*="user"]'',
             ''[data-role="user"]'', ''.human-message'', ''.message-user''];
          userMessages = concat (map (querySelectorAll d) userSelectors);
          chatMessages = querySelectorAll d
            ''.chat [class*="message"], [class*="conversation"] [class*="message"], .thread [class*="message"]''
      in userMessages @
         filter (\<lambda>msg. textContent d msg \<noteq> [] \<and>
                       node_querySelector d msg ''[class*="bot"]'' = None \<and>
                       node_querySelector d msg ''[class*="assistant"]'' = None \<and>
                       \<not> str_includes (textContent d msg) ''Meta AI:'' \<and>
                       \<not> classList_contains d msg ''ai-message'')
           chatMessages)\<close>

definition Meta_question :: "node \<Rightarrow> nat \<Rightarrow> qstate \<Rightarrow> qstate" where
  \<open>Meta_question message index st =
     (let d = fst st; questions = snd st;
          textElement = or_node
            (node_querySelector d message ''.message-text, .content, .text, p, div'') message
      in if trim (textContent d textElement) = [] then st
         else
           let text = trim (textContent d textElement) in
           if length text < 10 \<or> match_start_ci [''meta:'', ''ai:'', ''bot:''] text then st
           else
             let messageId = id_or d message (''meta-user-'' @ string_of_nat index);
                 d' = stamp_if_absent message messageId d
             in (d', questions @ [\<lparr>q_id = messageId, q_text = preview 100 text\<rparr>]))\<close>

definition Meta_getQuestions :: "document \<Rightarrow> qstate" where
  "Meta_getQuestions d = forEach Meta_question (Meta_userMessages d) 0 (d, [])"

subsection \<open>Grok\<close>

definition Grok_userMessages :: "document \<Rightarrow> node list" where
  \<open>Grok_userMessages d =
     (let userSelectors =
            [''[data-testid="user-message"]'', ''.user-message'', ''[class*="user"]'',
             ''.message-user'', ''[data-role="user"]'', ''.human-message''];
          userMessages = concat (map (querySelectorAll d) userSelectors);
          conversationMessages = querySelectorAll d
            ''.conversation .message, [class*="conversation"] [class*="message"], [class*="chat"] [class*="message"]''
      in userMessages @
         filter (\<lambda>msg. textContent d msg \<noteq> [] \<and>
                       node_querySelector d msg ''[class*="bot"]'' = None \<and>
                       node_querySelector d msg ''[class*="assistant"]'' = None \<and>
                       \<not> str_includes (textContent d msg) ''Grok:'')
           conversationMessages)\<close>

definition Grok_question :: "node \<Rightarrow> nat \<Rightarrow> qstate \<Rightarrow> qstate" where
  \<open>Grok_question message index st =
     (let d = fst st; questions = snd st;
          textElement = or_node
            (node_querySelector d message
               ''.prose, [class*="markdown"], .whitespace-pre-wrap, .message-content'') message
      in if trim (textContent d textElement) = [] then st
         else
           let text = trim (textContent d textElement) in
           if length text < 10 \<or> match_start_ci [''grok:'', ''bot:'', ''ai:''] text then st
           else
             let messageId = id_or d message (''grok-user-'' @ string_of_nat index);
                 d' = stamp_if_absent message messageId d
             in (d', questions @ [\<lparr>q_id = messageId, q_text = preview 100 text\<rparr>]))\<close>

definition Grok_getQuestions :: "document \<Rightarrow> qstate" where
  "Grok_getQuestions d = forEach Grok_question (Grok_userMessages d) 0 (d, [])"

subsection \<open>The parser the controller is built with\<close>

text \<open>Each content script constructs the controller with its own parser;
  \<^verbatim>\<open>this.parser.getQuestions()\<close> runs that parser's method.\<close>

datatype platform = ChatGPT | Perplexity | Claude | DeepSeek | Gemini | Copilot | Meta | Grok

fun userMessages :: "platform \<Rightarrow> document \<Rightarrow> node list" where
  "userMessages ChatGPT = ChatGPT_userMessages"
| "userMessages Perplexity = Perplexity_userMessages"
| "userMessages Claude = Claude_userMessages"
| "userMessages DeepSeek = DeepSeek_userMessages"
| "userMessages Gemini = Gemini_userMessages"
| "userMessages Copilot = Copilot_userMessages"
| "userMessages Meta = Meta_userMessages"
| "userMessages Grok = Grok_userMessages"

fun question_callback :: "platform \<Rightarrow> node \<Rightarrow> nat \<Rightarrow> qstate \<Rightarrow> qstate" where
  "question_callback ChatGPT = ChatGPT_question"
| "question_callback Perplexity = Perplexity_question"
| "question_callback Claude = Claude_question"
| "question_callback DeepSeek = DeepSeek_question"
| "question_callback Gemini = Gemini_question"
| "question_callback Copilot = Copilot_question"
| "question_callback Meta = Meta_question"
| "question_callback Grok = Grok_question"

fun getQuestions :: "platform \<Rightarrow> document \<Rightarrow> qstate" where
  "getQuestions ChatGPT = ChatGPT_getQuestions"
| "getQuestions Perplexity = Perplexity_getQuestions"
| "getQuestions Claude = Claude_getQuestions"
| "getQuestions DeepSeek = DeepSeek_getQuestions"
| "getQuestions Gemini = Gemini_getQuestions"
| "getQuestions Copilot = Copilot_getQuestions"
| "getQuestions Meta = Meta_getQuestions"
| "getQuestions Grok = Grok_getQuestions"

section \<open>The parsers: \<^verbatim>\<open>getChats\<close>\<close>

text \<open>
  \<^verbatim>\<open>let chatId = prefix + index; if (href) { const match = href.match(re);
  if (match) chatId = prefix + match[k]; }\<close> where the expression \<^verbatim>\<open>re\<close> is given by
  its literal alternatives and the class of its last group.
\<close>

definition chat_id_from ::
  "string option \<Rightarrow> string list \<Rightarrow> (char \<Rightarrow> bool) \<Rightarrow> string \<Rightarrow> nat \<Rightarrow> string" where
  "chat_id_from h alts cls pre index =
     (if truthy h then
        (case match_capture alts cls (case h of Some s \<Rightarrow> s | None \<Rightarrow> []) of
           Some c \<Rightarrow> pre @ c
         | None \<Rightarrow> pre @ string_of_nat index)
      else pre @ string_of_nat index)"

subsection \<open>ChatGPT\<close>

definition ChatGPT_chatItems :: "document \<Rightarrow> node list" where
  \<open>ChatGPT_chatItems d =
     querySelectorAll d ''nav a[href*="/c/"], .relative.grow.overflow-hidden.whitespace-nowrap''\<close>

text \<open>\<^verbatim>\<open>item.href || item.closest('a')?.href\<close>.\<close>

definition ChatGPT_href :: "document \<Rightarrow> node \<Rightarrow> string option" where
  "ChatGPT_href d item =
     (if truthy (href d item) then href d item
      else (case closest_a d item of None \<Rightarrow> None | Some a \<Rightarrow> href d a))"

definition ChatGPT_chat :: "document \<Rightarrow> node \<Rightarrow> nat \<Rightarrow> chat list \<Rightarrow> chat list" where
  \<open>ChatGPT_chat d item index chats =
     (let titleElement =
            or_node (or_else (node_querySelector d item ''.truncate'')
                      (or_else (node_querySelector d item ''[class*="truncate"]'')
                         (node_querySelector d item ''.overflow-hidden''))) item
      in if trim (textContent d titleElement) = [] then chats
         else
           let title = trim (textContent d titleElement);
               h = ChatGPT_href d item;
               chatId = chat_id_from h [''/c/''] not_slash ''chat-'' index
           in chats @ [\<lparr>c_id = chatId, c_title = title, c_url = h\<rparr>])\<close>

definition ChatGPT_history :: "document \<Rightarrow> chat list" where
  "ChatGPT_history d = forEach (ChatGPT_chat d) (ChatGPT_chatItems d) 0 []"

definition ChatGPT_current :: "document \<Rightarrow> chat list" where
  \<open>ChatGPT_current d =
     (case querySelector d ''h1, .text-xl, .text-lg, [class*="conversation-title"]'' of
        None \<Rightarrow> []
      | Some titleElement \<Rightarrow>
          if trim (textContent d titleElement) = [] then []
          else [\<lparr>c_id = ''current-chat'', c_title = trim (textContent d titleElement),
                 c_url = Some (location_href d)\<rparr>])\<close>

definition ChatGPT_getChats :: "document \<Rightarrow> chat list" where
  "ChatGPT_getChats d =
     (let chats = ChatGPT_history d in
      if length chats = 0 then chats @ ChatGPT_current d else chats)"

subsection \<open>Perplexity\<close>

definition Perplexity_chatItems :: "document \<Rightarrow> node list" where
  \<open>Perplexity_chatItems d =
     (let chatSelectors =
            [''a[href*="/search/"]'', ''a[href*="/thread/"]'', ''.thread-item'', ''.history-item'',
             ''[class*="history"] a'', ''[class*="thread-list"] a'', ''.search-history-item'']
      in concat (map (querySelectorAll d) chatSelectors))\<close>

definition Perplexity_chat :: "document \<Rightarrow> node \<Rightarrow> nat \<Rightarrow> chat list \<Rightarrow> chat list" where
  \<open>Perplexity_chat d item index chats =
     (let titleElement =
            or_node (node_querySelector d item ''.title, .query, .search-title, [class*="title"]'') item
      in if trim (textContent d titleElement) = [] then chats
         else
           let title = trim (textContent d titleElement);
               h = href d item;
               chatId = chat_id_from h [''/search/'', ''/thread/''] not_slash_query
                          ''perplexity-thread-'' index
           in chats @ [\<lparr>c_id = chatId, c_title = preview 50 title, c_url = h\<rparr>])\<close>

definition Perplexity_history :: "document \<Rightarrow> chat list" where
  "Perplexity_history d = forEach (Perplexity_chat d) (Perplexity_chatItems d) 0 []"

definition Perplexity_current :: "document \<Rightarrow> chat list" where
  \<open>Perplexity_current d =
     (case querySelector d
             ''input[type="text"], .search-input, [placeholder*="search"], [placeholder*="Ask"]'' of
        None \<Rightarrow> []
      | Some currentQuery \<Rightarrow>
          if truthy (node_value d currentQuery)
          then [\<lparr>c_id = ''perplexity-current-search'',
                  c_title = (case node_value d currentQuery of Some v \<Rightarrow> v | None \<Rightarrow> []),
                  c_url = Some (location_href d)\<rparr>]
          else [])\<close>

definition Perplexity_getChats :: "document \<Rightarrow> chat list" where
  "Perplexity_getChats d =
     (let chats = Perplexity_history d in
      if length chats = 0 then chats @ Perplexity_current d else chats)"

subsection \<open>Claude\<close>

definition Claude_chatItems :: "document \<Rightarrow> node list" where
  \<open>Claude_chatItems d =
     (let chatSelectors =
            [''a[href*="/chat/"]'', ''.conversation-item'', ''[class*="conversation-list"] a'',
             ''[class*="sidebar"] a[href*="/chat"]'', ''.chat-history-item'']
      in concat (map (querySelectorAll d) chatSelectors))\<close>

definition Claude_chat :: "document \<Rightarrow> node \<Rightarrow> nat \<Rightarrow> chat list \<Rightarrow> chat list" where
  \<open>Claude_chat d item index chats =
     (let titleElement =
            or_node (or_else (node_querySelector d item ''.truncate'')
                      (or_else (node_querySelector d item ''[class*="truncate"]'')
                         (or_else (node_querySelector d item ''.overflow-hidden'')
                            (node_querySelector d item ''.conversation-title'')))) item
      in if trim (textContent d titleElement) = [] then chats
         else
           let title = trim (textContent d titleElement);
               h = href d item;
               chatId = chat_id_from h [''/chat/''] not_slash_query ''claude-chat-'' index
           in chats @ [\<lparr>c_id = chatId, c_title = preview 50 title, c_url = h\<rparr>])\<close>

definition Claude_history :: "document \<Rightarrow> chat list" where
  "Claude_history d = forEach (Claude_chat d) (Claude_chatItems d) 0 []"

text \<open>The \<^verbatim>\<open>for (const selector of titleSelectors)\<close> loop, left at the first selector
  whose first match has a title that qualifies.\<close>

fun Claude_titleLoop :: "document \<Rightarrow> string list \<Rightarrow> chat list" where
  "Claude_titleLoop d [] = []"
| "Claude_titleLoop d (selector # rest) =
     (case querySelector d selector of
        None \<Rightarrow> Claude_titleLoop d rest
      | Some titleElement \<Rightarrow>
          if trim (textContent d titleElement) = [] then Claude_titleLoop d rest
          else
            let title = trim (textContent d titleElement) in
            if title \<noteq> ''Claude'' \<and> \<not> match_start_ci [''new'', ''untitled''] title
            then [\<lparr>c_id = ''claude-current-chat'', c_title = preview 50 title,
                    c_url = Some (location_href d)\<rparr>]
            else Claude_titleLoop d rest)"

definition Claude_titleSelectors :: "string list" where
  \<open>Claude_titleSelectors =
     [''h1'', ''.conversation-title'', ''[class*="title"]'', ''.text-xl'', ''.text-lg'']\<close>

definition Claude_current :: "document \<Rightarrow> chat list" where
  "Claude_current d = Claude_titleLoop d Claude_titleSelectors"

definition Claude_getChats :: "document \<Rightarrow> chat list" where
  "Claude_getChats d =
     (let chats = Claude_history d in
      if length chats = 0 then chats @ Claude_current d else chats)"

subsection \<open>DeepSeek\<close>

definition DeepSeek_chatItems :: "document \<Rightarrow> node list" where
  \<open>DeepSeek_chatItems d =
     querySelectorAll d ''.chat-history-item a, [data-testid="chat-history"] a''\<close>

definition DeepSeek_chat :: "document \<Rightarrow> node \<Rightarrow> nat \<Rightarrow> chat list \<Rightarrow> chat list" where
  \<open>DeepSeek_chat d item index chats =
     (case node_querySelector d item ''.title, .chat-title'' of
        None \<Rightarrow> chats
      | Some titleElement \<Rightarrow>
          if trim (textContent d titleElement) = [] then chats
          else
            let title = trim (textContent d titleElement);
                h = href d item;
                chatId = ''deepseek-chat-'' @ string_of_nat index
            in chats @ [\<lparr>c_id = chatId, c_title = title, c_url = h\<rparr>])\<close>

definition DeepSeek_history :: "document \<Rightarrow> chat list" where
  "DeepSeek_history d = forEach (DeepSeek_chat d) (DeepSeek_chatItems d) 0 []"

definition DeepSeek_getChats :: "document \<Rightarrow> chat list" where
  "DeepSeek_getChats d = DeepSeek_history d"

subsection \<open>Gemini\<close>

definition Gemini_chatItems :: "document \<Rightarrow> node list" where
  \<open>Gemini_chatItems d =
     (let chatSelectors =
            [''a[href*="/chat/"]'', ''a[href*="/app/"]'', ''.chat-item'', ''.conversation-item'',
             ''[class*="history"] a'', ''[class*="recent"] a'', ''.thread-item'']
      in concat (map (querySelectorAll d) chatSelectors))\<close>

definition Gemini_chat :: "document \<Rightarrow> node \<Rightarrow> nat \<Rightarrow> chat list \<Rightarrow> chat list" where
  \<open>Gemini_chat d item index chats =
     (let titleElement =
            or_node (node_querySelector d item
                       ''.title, .chat-title, [class*="title"], .conversation-name'') item
      in if trim (textContent d titleElement) = [] then chats
         else
           let title = trim (textContent d titleElement);
               h = href d item;
               chatId = chat_id_from h [''/chat/'', ''/app/''] not_slash_query ''gemini-chat-'' index
           in chats @ [\<lparr>c_id = chatId, c_title = preview 50 title, c_url = h\<rparr>])\<close>

definition Gemini_history :: "document \<Rightarrow> chat list" where
  "Gemini_history d = forEach (Gemini_chat d) (Gemini_chatItems d) 0 []"

definition Gemini_current :: "document \<Rightarrow> chat list" where
  \<open>Gemini_current d =
     (case querySelector d ''h1, .conversation-title, .chat-title, [class*="title"]'' of
        None \<Rightarrow> []
      | Some titleElement \<Rightarrow>
          if trim (textContent d titleElement) \<noteq> [] \<and>
             \<not> str_includes (textContent d titleElement) ''Gemini''
          then [\<lparr>c_id = ''gemini-current-chat'', c_title = trim (textContent d titleElement),
                  c_url = Some (location_href d)\<rparr>]
          else [])\<close>

definition Gemini_getChats :: "document \<Rightarrow> chat list" where
  "Gemini_getChats d =
     (let chats = Gemini_history d in
      if length chats = 0 then chats @ Gemini_current d else chats)"

subsection \<open>Copilot\<close>

definition Copilot_chatItems :: "document \<Rightarrow> node list" where
  \<open>Copilot_chatItems d =
     (let chatSelectors =
            [''a[href*="/chat/"]'', ''a[href*="/conversations/"]'', ''.chat-item'',
             ''.conversation-item'', ''[class*="history"] a'', ''.cib-serp-main a'',
             ''.recent-chats a'']
      in concat (map (querySelectorAll d) chatSelectors))\<close>

definition Copilot_chat :: "document \<Rightarrow> node \<Rightarrow> nat \<Rightarrow> chat list \<Rightarrow> chat list" where
  \<open>Copilot_chat d item index chats =
     (let titleElement =
            or_node (node_querySelector d item
                       ''.title, .chat-title, [class*="title"], span, div'') item
      in if trim (textContent d titleElement) = [] then chats
         else
           let title = trim (textContent d titleElement);
               h = href d item
           in if match_start_ci [''home'', ''settings'', ''help'', ''about''] title then chats
              else
                let chatId = chat_id_from h [''/chat/'', ''/conversations/'', ''/conversation/'']
                               not_slash_query ''copilot-chat-'' index
                in chats @ [\<lparr>c_id = chatId, c_title = preview 50 title, c_url = h\<rparr>])\<close>

definition Copilot_history :: "document \<Rightarrow> chat list" where
  "Copilot_history d = forEach (Copilot_chat d) (Copilot_chatItems d) 0 []"

definition Copilot_current :: "document \<Rightarrow> chat list" where
  \<open>Copilot_current d =
     (case querySelector d ''h1, .conversation-title, [class*="title"]:not(.page-title)'' of
        None \<Rightarrow> []
      | Some titleElement \<Rightarrow>
          if trim (textContent d titleElement) \<noteq> [] \<and>
             \<not> str_includes (textContent d titleElement) ''Copilot'' \<and>
             \<not> str_includes (textContent d titleElement) ''Bing''
          then [\<lparr>c_id = ''copilot-current-chat'', c_title = trim (textContent d titleElement),
                  c_url = Some (location_href d)\<rparr>]
          else [])\<close>

definition Copilot_getChats :: "document \<Rightarrow> chat list" where
  "Copilot_getChats d =
     (let chats = Copilot_history d in
      if length chats = 0 then chats @ Copilot_current d else chats)"

subsection \<open>Meta AI\<close>

definition Meta_chatItems :: "document \<Rightarrow> node list" where
  \<open>Meta_chatItems d =
     (let chatSelectors =
            [''a[href*="/chat/"]'', ''a[href*="/conversation/"]'', ''.chat-item'',
             ''.conversation-item'', ''[class*="history"] a'', ''[class*="thread-list"] a'',
             ''.recent-chat'']
      in concat (map (querySelectorAll d) chatSelectors))\<close>

definition Meta_chat :: "document \<Rightarrow> node \<Rightarrow> nat \<Rightarrow> chat list \<Rightarrow> chat list" where
  \<open>Meta_chat d item index chats =
     (let titleElement =
            or_node (node_querySelector d item
                       ''.title, .chat-title, [class*="title"], .conversation-name, span'') item
      in if trim (textContent d titleElement) = [] then chats
         else
           let title = trim (textContent d titleElement);
               h = href d item;
               chatId = chat_id_from h [''/chat/'', ''/conversation/''] not_slash_query
                          ''meta-chat-'' index
           in chats @ [\<lparr>c_id = chatId, c_title = preview 50 title, c_url = h\<rparr>])\<close>

definition Meta_history :: "document \<Rightarrow> chat list" where
  "Meta_history d = forEach (Meta_chat d) (Meta_chatItems d) 0 []"

definition Meta_current :: "document \<Rightarrow> chat list" where
  \<open>Meta_current d =
     (case querySelector d ''h1, .conversation-title, .page-title, [class*="title"]'' of
        None \<Rightarrow> []
      | Some titleElement \<Rightarrow>
          if trim (textContent d titleElement) \<noteq> [] \<and>
             \<not> str_includes (textContent d titleElement) ''Meta AI''
          then [\<lparr>c_id = ''meta-current-chat'', c_title = trim (textContent d titleElement),
                  c_url = Some (location_href d)\<rparr>]
          else [])\<close>

definition Meta_getChats :: "document \<Rightarrow> chat list" where
  "Meta_getChats d =
     (let chats = Meta_history d in
      if length chats = 0 then chats @ Meta_current d else chats)"

subsection \<open>Grok\<close>

definition Grok_chatItems :: "document \<Rightarrow> node list" where
  \<open>Grok_chatItems d =
     (let chatSelectors =
            [''a[href*="/chat/"]'', ''a[href*="/conversation/"]'', ''.chat-item'',
             ''.conversation-item'', ''[class*="chat-list"] a'', ''[class*="sidebar"] a'',
             ''.history-item'']
      in concat (map (querySelectorAll d) chatSelectors))\<close>

definition Grok_chat :: "document \<Rightarrow> node \<Rightarrow> nat \<Rightarrow> chat list \<Rightarrow> chat list" where
  \<open>Grok_chat d item index chats =
     (let titleElement =
            or_node (node_querySelector d item ''.title, .name, .chat-title, [class*="title"]'') item
      in if trim (textContent d titleElement) = [] then chats
         else
           let title = trim (textContent d titleElement);
               h = href d item;
               chatId = chat_id_from h [''/chat/'', ''/conversation/''] not_slash_query
                          ''grok-chat-'' index
           in chats @ [\<lparr>c_id = chatId, c_title = preview 50 title, c_url = h\<rparr>])\<close>

definition Grok_history :: "document \<Rightarrow> chat list" where
  "Grok_history d = forEach (Grok_chat d) (Grok_chatItems d) 0 []"

definition Grok_current :: "document \<Rightarrow> chat list" where
  \<open>Grok_current d =
     (case querySelector d ''h1, .page-title, .conversation-title'' of
        None \<Rightarrow> []
      | Some titleElement \<Rightarrow>
          if trim (textContent d titleElement) = [] then []
          else [\<lparr>c_id = ''grok-current-chat'', c_title = trim (textContent d titleElement),
                 c_url = Some (location_href d)\<rparr>])\<close>

definition Grok_getChats :: "document \<Rightarrow> chat list" where
  "Grok_getChats d =
     (let chats = Grok_history d in
      if length chats = 0 then chats @ Grok_current d else chats)"

subsection \<open>The parser the controller is built with\<close>

fun chatItems :: "platform \<Rightarrow> document \<Rightarrow> node list" where
  "chatItems ChatGPT = ChatGPT_chatItems"
| "chatItems Perplexity = Perplexity_chatItems"
| "chatItems Claude = Claude_chatItems"
| "chatItems DeepSeek = DeepSeek_chatItems"
| "chatItems Gemini = Gemini_chatItems"
| "chatItems Copilot = Copilot_chatItems"
| "chatItems Meta = Meta_chatItems"
| "chatItems Grok = Grok_chatItems"

fun chat_callback :: "platform \<Rightarrow> document \<Rightarrow> node \<Rightarrow> nat \<Rightarrow> chat list \<Rightarrow> chat list" where
  "chat_callback ChatGPT = ChatGPT_chat"
| "chat_callback Perplexity = Perplexity_chat"
| "chat_callback Claude = Claude_chat"
| "chat_callback DeepSeek = DeepSeek_chat"
| "chat_callback Gemini = Gemini_chat"
| "chat_callback Copilot = Copilot_chat"
| "chat_callback Meta = Meta_chat"
| "chat_callback Grok = Grok_chat"

text \<open>The entries the history scan (the \<^verbatim>\<open>chatItems.forEach\<close> loop) collects.\<close>

fun history :: "platform \<Rightarrow> document \<Rightarrow> chat list" where
  "history ChatGPT = ChatGPT_history"
| "history Perplexity = Perplexity_history"
| "history Claude = Claude_history"
| "history DeepSeek = DeepSeek_history"
| "history Gemini = Gemini_history"
| "history Copilot = Copilot_history"
| "history Meta = Meta_history"
| "history Grok = Grok_history"

fun getChats :: "platform \<Rightarrow> document \<Rightarrow> chat list" where
  "getChats ChatGPT = ChatGPT_getChats"
| "getChats Perplexity = Perplexity_getChats"
| "getChats Claude = Claude_getChats"
| "getChats DeepSeek = DeepSeek_getChats"
| "getChats Gemini = Gemini_getChats"
| "getChats Copilot = Copilot_getChats"
| "getChats Meta = Meta_getChats"
| "getChats Grok = Grok_getChats"

section \<open>What the question callbacks do, in one statement\<close>

text \<open>
  The description of a question callback in the terms of the specification: the selector
  of the inner text-bearing node, whether the candidate itself stands in when that node is
  missing, the minimum length, the labels of assistant speech, and the prefix of a
  synthesized id.
\<close>

fun text_selector :: "platform \<Rightarrow> string" where
  \<open>text_selector ChatGPT = ''.prose, [class*="markdown"], .whitespace-pre-wrap, .break-words''\<close>
| \<open>text_selector Perplexity = ''.text, .content, .query-text''\<close>
| \<open>text_selector Claude = ''.prose, [class*="markdown"], .whitespace-pre-wrap''\<close>
| \<open>text_selector DeepSeek = ''.content, .message-text''\<close>
| \<open>text_selector Gemini = ''.markdown, .prose, .message-content, .text-content''\<close>
| \<open>text_selector Copilot = ''.ac-textRun, .message-content, .text-content, p, div''\<close>
| \<open>text_selector Meta = ''.message-text, .content, .text, p, div''\<close>
| \<open>text_selector Grok = ''.prose, [class*="markdown"], .whitespace-pre-wrap, .message-content''\<close>

definition falls_back :: "platform \<Rightarrow> bool" where
  "falls_back p = (p \<noteq> ChatGPT \<and> p \<noteq> DeepSeek)"

definition min_length :: "platform \<Rightarrow> nat" where
  "min_length p = (if p = ChatGPT \<or> p = DeepSeek then 0 else 10)"

fun assistant_labels :: "platform \<Rightarrow> string list" where
  "assistant_labels ChatGPT = []"
| "assistant_labels Perplexity = []"
| "assistant_labels Claude = [''claude:'', ''assistant:'', ''ai:'']"
| "assistant_labels DeepSeek = []"
| "assistant_labels Gemini = [''gemini:'', ''bard:'', ''ai:'']"
| "assistant_labels Copilot = [''copilot:'', ''bing:'', ''ai:'']"
| "assistant_labels Meta = [''meta:'', ''ai:'', ''bot:'']"
| "assistant_labels Grok = [''grok:'', ''bot:'', ''ai:'']"

fun id_prefix :: "platform \<Rightarrow> string" where
  "id_prefix ChatGPT = ''chatgpt-user-''"
| "id_prefix Perplexity = ''perplexity-query-''"
| "id_prefix Claude = ''claude-user-''"
| "id_prefix DeepSeek = ''deepseek-user-''"
| "id_prefix Gemini = ''gemini-user-''"
| "id_prefix Copilot = ''copilot-user-''"
| "id_prefix Meta = ''meta-user-''"
| "id_prefix Grok = ''grok-user-''"

definition text_node :: "platform \<Rightarrow> document \<Rightarrow> node \<Rightarrow> node option" where
  "text_node p d message =
     (case node_querySelector d message (text_selector p) of
        Some e \<Rightarrow> Some e
      | None \<Rightarrow> if falls_back p then Some message else None)"

definition resolved_text :: "platform \<Rightarrow> document \<Rightarrow> node \<Rightarrow> string" where
  "resolved_text p d message =
     (case text_node p d message of Some e \<Rightarrow> trim (textContent d e) | None \<Rightarrow> [])"

definition assistant_speech :: "platform \<Rightarrow> string \<Rightarrow> bool" where
  "assistant_speech p text = match_start_ci (assistant_labels p) text"

definition accepted :: "platform \<Rightarrow> document \<Rightarrow> node \<Rightarrow> bool" where
  "accepted p d message =
     (resolved_text p d message \<noteq> [] \<and>
      min_length p \<le> length (resolved_text p d message) \<and>
      \<not> assistant_speech p (resolved_text p d message))"

definition assigned_id :: "platform \<Rightarrow> document \<Rightarrow> node \<Rightarrow> nat \<Rightarrow> string" where
  "assigned_id p d message index =
     (if p \<noteq> DeepSeek \<and> node_id d message \<noteq> [] then node_id d message
      else id_prefix p @ string_of_nat index)"

definition stamp :: "node \<Rightarrow> string \<Rightarrow> document \<Rightarrow> document" where
  "stamp message i d = d\<lparr>node_id := (node_id d)(message := i)\<rparr>"

section \<open>What the chat callbacks do, in one statement\<close>

text \<open>The selectors tried in turn for the title-bearing node of a history entry.\<close>

fun title_selectors :: "platform \<Rightarrow> string list" where
  \<open>title_selectors ChatGPT = [''.truncate'', ''[class*="truncate"]'', ''.overflow-hidden'']\<close>
| \<open>title_selectors Perplexity = [''.title, .query, .search-title, [class*="title"]'']\<close>
| \<open>title_selectors Claude =
     [''.truncate'', ''[class*="truncate"]'', ''.overflow-hidden'', ''.conversation-title'']\<close>
| \<open>title_selectors DeepSeek = [''.title, .chat-title'']\<close>
| \<open>title_selectors Gemini = [''.title, .chat-title, [class*="title"], .conversation-name'']\<close>
| \<open>title_selectors Copilot = [''.title, .chat-title, [class*="title"], span, div'']\<close>
| \<open>title_selectors Meta = [''.title, .chat-title, [class*="title"], .conversation-name, span'']\<close>
| \<open>title_selectors Grok = [''.title, .name, .chat-title, [class*="title"]'']\<close>

fun first_match :: "document \<Rightarrow> node \<Rightarrow> string list \<Rightarrow> node option" where
  "first_match d item [] = None"
| "first_match d item (s # rest) = or_else (node_querySelector d item s) (first_match d item rest)"

definition title_node :: "platform \<Rightarrow> document \<Rightarrow> node \<Rightarrow> node option" where
  "title_node p d item =
     (case first_match d item (title_selectors p) of
        Some e \<Rightarrow> Some e
      | None \<Rightarrow> if p = DeepSeek then None else Some item)"

definition resolved_title :: "platform \<Rightarrow> document \<Rightarrow> node \<Rightarrow> string" where
  "resolved_title p d item =
     (case title_node p d item of Some e \<Rightarrow> trim (textContent d e) | None \<Rightarrow> [])"

text \<open>Copilot alone skips the entries whose title starts with a navigation label.\<close>

definition chrome_label :: "platform \<Rightarrow> string \<Rightarrow> bool" where
  "chrome_label p title =
     (p = Copilot \<and> match_start_ci [''home'', ''settings'', ''help'', ''about''] title)"

definition chat_accepted :: "platform \<Rightarrow> document \<Rightarrow> node \<Rightarrow> bool" where
  "chat_accepted p d item =
     (resolved_title p d item \<noteq> [] \<and> \<not> chrome_label p (resolved_title p d item))"

text \<open>ChatGPT and DeepSeek store the title as it is; the others cut it at 50 units.\<close>

definition truncates_titles :: "platform \<Rightarrow> bool" where
  "truncates_titles p = (p \<noteq> ChatGPT \<and> p \<noteq> DeepSeek)"

definition stored_title :: "platform \<Rightarrow> string \<Rightarrow> string" where
  "stored_title p title = (if truncates_titles p then preview 50 title else title)"

definition item_href :: "platform \<Rightarrow> document \<Rightarrow> node \<Rightarrow> string option" where
  "item_href p d item = (if p = ChatGPT then ChatGPT_href d item else href d item)"

text \<open>The literal alternatives, the class and the prefix of the id taken from the link.\<close>

fun href_alts :: "platform \<Rightarrow> string list" where
  "href_alts ChatGPT = [''/c/'']"
| "href_alts Perplexity = [''/search/'', ''/thread/'']"
| "href_alts Claude = [''/chat/'']"
| "href_alts DeepSeek = []"
| "href_alts Gemini = [''/chat/'', ''/app/'']"
| "href_alts Copilot = [''/chat/'', ''/conversations/'', ''/conversation/'']"
| "href_alts Meta = [''/chat/'', ''/conversation/'']"
| "href_alts Grok = [''/chat/'', ''/conversation/'']"

definition href_class :: "platform \<Rightarrow> char \<Rightarrow> bool" where
  "href_class p = (if p = ChatGPT then not_slash else not_slash_query)"

fun chat_prefix :: "platform \<Rightarrow> string" where
  "chat_prefix ChatGPT = ''chat-''"
| "chat_prefix Perplexity = ''perplexity-thread-''"
| "chat_prefix Claude = ''claude-chat-''"
| "chat_prefix DeepSeek = ''deepseek-chat-''"
| "chat_prefix Gemini = ''gemini-chat-''"
| "chat_prefix Copilot = ''copilot-chat-''"
| "chat_prefix Meta = ''meta-chat-''"
| "chat_prefix Grok = ''grok-chat-''"

definition assigned_chat_id :: "platform \<Rightarrow> document \<Rightarrow> node \<Rightarrow> nat \<Rightarrow> string" where
  "assigned_chat_id p d item index =
     (if p = DeepSeek then chat_prefix p @ string_of_nat index
      else chat_id_from (item_href p d item) (href_alts p) (href_class p) (chat_prefix p) index)"

text \<open>The name of a platform in the ids it synthesizes.\<close>

fun platform_name :: "platform \<Rightarrow> string" where
  "platform_name ChatGPT = ''chatgpt''"
| "platform_name Perplexity = ''perplexity''"
| "platform_name Claude = ''claude''"
| "platform_name DeepSeek = ''deepseek''"
| "platform_name Gemini = ''gemini''"
| "platform_name Copilot = ''copilot''"
| "platform_name Meta = ''meta''"
| "platform_name Grok = ''grok''"

text \<open>The fallback of the platforms that read one page-level heading: its selector, the
  brand names a heading must not contain, and the id of the synthesized entry.\<close>

fun heading_selector :: "platform \<Rightarrow> string" where
  \<open>heading_selector ChatGPT = ''h1, .text-xl, .text-lg, [class*="conversation-title"]''\<close>
| \<open>heading_selector Gemini = ''h1, .conversation-title, .chat-title, [class*="title"]''\<close>
| \<open>heading_selector Copilot = ''h1, .conversation-title, [class*="title"]:not(.page-title)''\<close>
| \<open>heading_selector Meta = ''h1, .conversation-title, .page-title, [class*="title"]''\<close>
| \<open>heading_selector Grok = ''h1, .page-title, .conversation-title''\<close>
| \<open>heading_selector p = []\<close>

fun brand_names :: "platform \<Rightarrow> string list" where
  "brand_names Gemini = [''Gemini'']"
| "brand_names Copilot = [''Copilot'', ''Bing'']"
| "brand_names Meta = [''Meta AI'']"
| "brand_names p = []"

fun current_id :: "platform \<Rightarrow> string" where
  "current_id ChatGPT = ''current-chat''"
| "current_id Perplexity = ''perplexity-current-search''"
| "current_id Claude = ''claude-current-chat''"
| "current_id DeepSeek = []"
| "current_id Gemini = ''gemini-current-chat''"
| "current_id Copilot = ''copilot-current-chat''"
| "current_id Meta = ''meta-current-chat''"
| "current_id Grok = ''grok-current-chat''"

definition reads_heading :: "platform \<Rightarrow> bool" where
  "reads_heading p = (p = ChatGPT \<or> p = Gemini \<or> p = Copilot \<or> p = Meta \<or> p = Grok)"

definition names_brand :: "platform \<Rightarrow> string \<Rightarrow> bool" where
  "names_brand p text = list_ex (str_includes text) (brand_names p)"

definition heading_chat :: "platform \<Rightarrow> document \<Rightarrow> chat list" where
  "heading_chat p d =
     (case querySelector d (heading_selector p) of
        None \<Rightarrow> []
      | Some h \<Rightarrow>
          if trim (textContent d h) \<noteq> [] \<and> \<not> names_brand p (textContent d h)
          then [\<lparr>c_id = current_id p, c_title = trim (textContent d h),
                  c_url = Some (location_href d)\<rparr>]
          else [])"

text \<open>A title Claude's fallback takes: not the brand name, not a placeholder.\<close>

definition Claude_qualifies :: "string \<Rightarrow> bool" where
  "Claude_qualifies title =
     (title \<noteq> [] \<and> title \<noteq> ''Claude'' \<and> \<not> match_start_ci [''new'', ''untitled''] title)"

text \<open>The title Claude's fallback finds under one selector, if it qualifies, and the chat
  of the first selector, in the order of the list, that has one.\<close>

definition Claude_title_at :: "document \<Rightarrow> string \<Rightarrow> string option" where
  "Claude_title_at d selector =
     (case querySelector d selector of
        None \<Rightarrow> None
      | Some h \<Rightarrow>
          if Claude_qualifies (trim (textContent d h)) then Some (trim (textContent d h))
          else None)"

definition current_chat :: "platform \<Rightarrow> document \<Rightarrow> string \<Rightarrow> chat" where
  "current_chat p d title =
     \<lparr>c_id = current_id p, c_title = title, c_url = Some (location_href d)\<rparr>"

definition first_title_chat :: "document \<Rightarrow> string list \<Rightarrow> chat list" where
  "first_title_chat d selectors =
     (case List.map_filter (Claude_title_at d) selectors of
        [] \<Rightarrow> []
      | title # _ \<Rightarrow> [current_chat Claude d (preview 50 title)])"

text \<open>Perplexity's fallback: the chat of the search input, when the input is on the page
  and holds a value that is not empty.\<close>

definition search_input_selector :: string where
  \<open>search_input_selector =
     ''input[type="text"], .search-input, [placeholder*="search"], [placeholder*="Ask"]''\<close>

definition input_chat :: "document \<Rightarrow> chat list" where
  "input_chat d =
     (case querySelector d search_input_selector of
        None \<Rightarrow> []
      | Some input \<Rightarrow>
          (case node_value d input of
             None \<Rightarrow> []
           | Some v \<Rightarrow> if v = [] then [] else [current_chat Perplexity d v]))"

text \<open>The truncation law: what a stored string of cap \<open>cap\<close> is to the text \<open>T\<close> it was
  cut from. The marker has three units.\<close>

definition truncation_law :: "nat \<Rightarrow> string \<Rightarrow> string \<Rightarrow> bool" where
  "truncation_law cap T s =
     (length s \<le> cap + 3 \<and>
      (if cap < length T
       then length s = cap + 3 \<and> drop cap s = ''...'' \<and> take cap s = take cap T
       else s = T))"

section \<open>The navigator controller: panel state machine\<close>

text \<open>
  \<^verbatim>\<open>ChatNavigatorUI\<close> keeps the field \<^verbatim>\<open>activePanel\<close> (\<^verbatim>\<open>null\<close> or the
  panel type) and, in the overlay, the class \<^verbatim>\<open>active\<close> on each of the two buttons
  and the class \<^verbatim>\<open>show\<close> on each of the two panels. A panel is open when it carries
  the class \<^verbatim>\<open>show\<close>.
\<close>

datatype kind = Questions | Chats

record ui_state =
  activePanel :: "kind option"
  button_active :: "kind \<Rightarrow> bool"
  panel_show :: "kind \<Rightarrow> bool"

text \<open>The constructor sets \<^verbatim>\<open>activePanel = null\<close>; \<^verbatim>\<open>createUI\<close> writes the
  buttons and panels without the classes \<^verbatim>\<open>active\<close> and \<^verbatim>\<open>show\<close>.\<close>

definition initial_ui :: ui_state where
  "initial_ui = \<lparr>activePanel = None, button_active = (\<lambda>_. False), panel_show = (\<lambda>_. False)\<rparr>"

text \<open>\<^verbatim>\<open>closeAllPanels\<close>: clears \<^verbatim>\<open>activePanel\<close> and removes the class from every
  button and every panel.\<close>

definition closeAllPanels :: "ui_state \<Rightarrow> ui_state" where
  "closeAllPanels s =
     s\<lparr>activePanel := None, button_active := (\<lambda>_. False), panel_show := (\<lambda>_. False)\<rparr>"

text \<open>\<^verbatim>\<open>togglePanel(type)\<close> for one of the two types the buttons carry.\<close>

definition togglePanel :: "kind \<Rightarrow> ui_state \<Rightarrow> ui_state" where
  "togglePanel type s =
     (if activePanel s = Some type then closeAllPanels s
      else (let s1 = closeAllPanels s;
                s2 = s1\<lparr>activePanel := Some type\<rparr>;
                s3 = s2\<lparr>button_active := (button_active s2)(type := True)\<rparr>
            in s3\<lparr>panel_show := (panel_show s3)(type := True)\<rparr>))"




definition is_open :: "ui_state \<Rightarrow> kind \<Rightarrow> bool" where
  "is_open s k = panel_show s k"



section \<open>The navigator controller: rendering\<close>

text \<open>
  \<^verbatim>\<open>escapeHtml\<close> sets the text as the \<^verbatim>\<open>textContent\<close> of a fresh \<^verbatim>\<open>div\<close> and reads
  its \<^verbatim>\<open>innerHTML\<close> back. The DOM serialises the text node so made by replacing
  \<^verbatim>\<open>&\<close>, the no-break space, \<^verbatim>\<open><\<close> and \<^verbatim>\<open>>\<close> by \<^verbatim>\<open>&amp;\<close>, \<^verbatim>\<open>&nbsp;\<close>,
  \<^verbatim>\<open>&lt;\<close> and \<^verbatim>\<open>&gt;\<close>; quotes are left as they are.
\<close>

definition escape_unit :: "char \<Rightarrow> string" where
  "escape_unit c =
     (if c = CHR ''&'' then ''&amp;''
      else if c = CHR 0xA0 then ''&nbsp;''
      else if c = CHR ''<'' then ''&lt;''
      else if c = CHR ''>'' then ''&gt;''
      else [c])"

definition escapeHtml :: "string \<Rightarrow> string" where
  "escapeHtml text = concat (map escape_unit text)"

text \<open>The template literal of one row, around the id and the escaped text.\<close>

definition row_open :: "string \<Rightarrow> string" where
  \<open>row_open i =
     [CHR 0x0A] @ ''      <div class="nav-item" data-element-id="'' @ i @ ''">'' @
     [CHR 0x0A] @ ''        <div class="nav-item-text">''\<close>

definition row_close :: string where
  \<open>row_close = ''</div>'' @ [CHR 0x0A] @ ''      </div>'' @ [CHR 0x0A] @ ''    ''\<close>

definition nav_item :: "string \<Rightarrow> string \<Rightarrow> string" where
  "nav_item i escaped = row_open i @ escaped @ row_close"

text \<open>The markup \<^verbatim>\<open>renderQuestions\<close> and \<^verbatim>\<open>renderChats\<close> assign to the
  \<^verbatim>\<open>innerHTML\<close> of their panel.\<close>

definition renderQuestions :: "question list \<Rightarrow> string" where
  \<open>renderQuestions questions =
     (if length questions = 0 then ''<div class="empty-state">No questions found</div>''
      else concat (map (\<lambda>question. nav_item (q_id question) (escapeHtml (q_text question)))
                     questions))\<close>

definition renderChats :: "chat list \<Rightarrow> string" where
  \<open>renderChats chats =
     (if length chats = 0 then ''<div class="empty-state">No chats found</div>''
      else concat (map (\<lambda>chat. nav_item (c_id chat) (escapeHtml (c_title chat))) chats))\<close>

section \<open>The navigator controller: selection\<close>

text \<open>What a selection asks of the page: the scroll into view, the highlight (transition
  and background colour), and the timer that reverts the highlight after the delay.\<close>

datatype effect = ScrollIntoView node | Highlight node | RevertAfter nat node

datatype dom_exception = SyntaxError

definition getElementById :: "document \<Rightarrow> string \<Rightarrow> node option" where
  "getElementById d elementId =
     (if elementId = [] then None else find (\<lambda>n. node_id d n = elementId) (all_elements d))"

text \<open>\<^verbatim>\<open>document.querySelector\<close> with a selector built at run time.\<close>

definition querySelector_built :: "document \<Rightarrow> string \<Rightarrow> dom_exception + node option" where
  "querySelector_built d selector =
     (if selector_parses d selector then Inr (querySelector d selector) else Inl SyntaxError)"

definition data_id_selector :: "string \<Rightarrow> string" where
  \<open>data_id_selector elementId = ''[data-id="'' @ elementId @ ''"]''\<close>

definition scroll_and_highlight :: "node \<Rightarrow> effect list" where
  "scroll_and_highlight element = [ScrollIntoView element, Highlight element, RevertAfter 2000 element]"

definition scrollToElement :: "document \<Rightarrow> string \<Rightarrow> dom_exception + effect list" where
  "scrollToElement d elementId =
     (case getElementById d elementId of
        Some element \<Rightarrow> Inr (scroll_and_highlight element)
      | None \<Rightarrow>
          (case querySelector_built d (data_id_selector elementId) of
             Inl e \<Rightarrow> Inl e
           | Inr None \<Rightarrow> Inr []
           | Inr (Some element) \<Rightarrow> Inr (scroll_and_highlight element)))"

text \<open>The click handler of a row: \<^verbatim>\<open>scrollToElement(elementId)\<close>, then
  \<^verbatim>\<open>closeAllPanels()\<close>. Neither the handler nor \<^verbatim>\<open>scrollToElement\<close> has a
  \<^verbatim>\<open>try\<close>: an exception of the query leaves the handler at once, before
  \<^verbatim>\<open>closeAllPanels\<close>. The result is what left the handler (the exception, or the
  effects asked of the page) and the state of the panels afterwards.\<close>

definition row_click ::
  "document \<Rightarrow> string \<Rightarrow> ui_state \<Rightarrow> (dom_exception + effect list) \<times> ui_state" where
  "row_click d elementId s =
     (case scrollToElement d elementId of
        Inl e \<Rightarrow> (Inl e, s)
      | Inr effects \<Rightarrow> (Inr effects, closeAllPanels s))"

section \<open>The navigator controller: change-driven refresh\<close>

text \<open>
  The controller with its page: the lists (\<^verbatim>\<open>this.questions\<close>, \<^verbatim>\<open>this.chats\<close>)
  and the two panel bodies that \<^verbatim>\<open>updateContent\<close>
  writes, and the field \<^verbatim>\<open>updateTimeout\<close>, here the deadline of the pending timer
  (none when no timer is pending). Time is a count of milliseconds; a timer runs at its
  deadline unless cleared before. Two logs are kept beside the fields of the source:
  the times at which the observer's callback ran, and the times at which a timer ran
  \<^verbatim>\<open>updateContent\<close>.
\<close>

record controller =
  page :: document
  this_questions :: "question list"
  this_chats :: "chat list"
  questions_panel :: string
  chats_panel :: string
  updateTimeout :: "nat option"
  notifications :: "nat list"
  refreshes :: "nat list"














section \<open>Concrete pages\<close>

definition blank_page :: document where
  "blank_page =
     \<lparr>querySelectorAll = (\<lambda>_. []), node_querySelector = (\<lambda>_ _. None), textContent = (\<lambda>_. []),
      node_id = (\<lambda>_. []), href = (\<lambda>_. None), closest_a = (\<lambda>_. None),
      node_value = (\<lambda>_. None), classList_contains = (\<lambda>_ _. False),
      location_href = ''https://example.test/page'', all_elements = [],
      selector_parses = (\<lambda>_. True)\<rparr>"

text \<open>A ChatGPT page: one user message (node 1) whose text node (node 2) holds 101 units,
  and one sidebar link (node 3) whose text holds 51 units.\<close>

definition long_page :: document where
  \<open>long_page = blank_page
     \<lparr>querySelectorAll :=
        (\<lambda>s. if s = ''[data-message-author-role="user"]'' then [1]
             else if s = ''nav a[href*="/c/"], .relative.grow.overflow-hidden.whitespace-nowrap''
             then [3] else []),
      node_querySelector :=
        (\<lambda>n s. if n = 1 \<and> s = ''.prose, [class*="markdown"], .whitespace-pre-wrap, .break-words''
               then Some 2 else None),
      textContent :=
        (\<lambda>n. if n = 2 then replicate 101 (CHR ''a'')
             else if n = 3 then replicate 51 (CHR ''b'') else []),
      href := (\<lambda>n. if n = 3 then Some ''https://chatgpt.com/c/abc'' else None),
      all_elements := [1, 2, 3]\<rparr>\<close>

text \<open>A ChatGPT page whose one user message reads \<^verbatim>\<open>hi\<close>.\<close>

definition short_page :: document where
  \<open>short_page = blank_page
     \<lparr>querySelectorAll := (\<lambda>s. if s = ''[data-message-author-role="user"]'' then [1] else []),
      node_querySelector :=
        (\<lambda>n s. if n = 1 \<and> s = ''.prose, [class*="markdown"], .whitespace-pre-wrap, .break-words''
               then Some 2 else None),
      textContent := (\<lambda>n. if n = 2 then ''hi'' else []),
      all_elements := [1, 2]\<rparr>\<close>

text \<open>A Claude page with three user messages of 5, 50 and 150 units (nodes 1, 2, 3), none
  with an inner text node.\<close>

definition three_page :: document where
  \<open>three_page = blank_page
     \<lparr>querySelectorAll :=
        (\<lambda>s. if s = ''[data-is-streaming="false"] .font-user-message, .human-message, [class*="user"], [data-testid*="user"]''
             then [1, 2, 3] else []),
      textContent :=
        (\<lambda>n. if n = 1 then ''hello''
             else if n = 2 then replicate 50 (CHR ''q'')
             else if n = 3 then replicate 150 (CHR ''r'') else []),
      all_elements := [1, 2, 3]\<rparr>\<close>

text \<open>A page with two user messages that the ChatGPT, DeepSeek and Perplexity parsers all
  find: node 1 carries the id \<^verbatim>\<open>msg-7\<close>, node 3 carries none; nodes 2 and 4 hold their
  texts.\<close>

definition stamped_page :: document where
  \<open>stamped_page = blank_page
     \<lparr>querySelectorAll :=
        (\<lambda>s. if s = ''[data-message-author-role="user"]'' \<or>
                s = ''.user-message, [data-author="user"]'' \<or> s = ''.user-message''
             then [1, 3] else []),
      node_querySelector := (\<lambda>n s. if n = 1 then Some 2 else if n = 3 then Some 4 else None),
      textContent :=
        (\<lambda>n. if n = 2 then ''What is HOL?'' else if n = 4 then ''Explain induction'' else []),
      node_id := (\<lambda>n. if n = 1 then ''msg-7'' else []),
      all_elements := [1, 2, 3, 4]\<rparr>\<close>

text \<open>A page without history entries and with one heading (node 5) that every heading
  selector finds; the heading reads as given.\<close>

definition heading_page :: "string \<Rightarrow> document" where
  \<open>heading_page title = blank_page
     \<lparr>querySelectorAll :=
        (\<lambda>s. if s = ''h1, .text-xl, .text-lg, [class*="conversation-title"]'' \<or> s = ''h1'' \<or>
                s = ''h1, .conversation-title, .chat-title, [class*="title"]'' \<or>
                s = ''h1, .conversation-title, [class*="title"]:not(.page-title)'' \<or>
                s = ''h1, .conversation-title, .page-title, [class*="title"]'' \<or>
                s = ''h1, .page-title, .conversation-title''
             then [5] else []),
      textContent := (\<lambda>n. if n = 5 then title else []),
      all_elements := [5]\<rparr>\<close>

text \<open>A Claude page with one sidebar link (node 6) whose title holds 60 units.\<close>

definition sidebar_page :: document where
  \<open>sidebar_page = blank_page
     \<lparr>querySelectorAll := (\<lambda>s. if s = ''a[href*="/chat/"]'' then [6] else []),
      textContent := (\<lambda>n. if n = 6 then replicate 60 (CHR ''t'') else []),
      href := (\<lambda>n. if n = 6 then Some ''https://claude.ai/chat/42'' else None),
      all_elements := [6]\<rparr>\<close>

text \<open>A Perplexity page without history entries whose search input (node 7) holds a
  query.\<close>

definition search_page :: document where
  \<open>search_page = blank_page
     \<lparr>querySelectorAll :=
        (\<lambda>s. if s = ''input[type="text"], .search-input, [placeholder*="search"], [placeholder*="Ask"]''
             then [7] else []),
      node_value := (\<lambda>n. if n = 7 then Some ''isabelle hol'' else None),
      all_elements := [7]\<rparr>\<close>

text \<open>A page without history entries and with two headings: the first \<^verbatim>\<open>h1\<close> (node 5)
  and the first element of class \<^verbatim>\<open>text-lg\<close> (node 8), reading as given.\<close>

definition two_heading_page :: "string \<Rightarrow> string \<Rightarrow> document" where
  \<open>two_heading_page title1 title2 = blank_page
     \<lparr>querySelectorAll := (\<lambda>s. if s = ''h1'' then [5] else if s = ''.text-lg'' then [8] else []),
      textContent := (\<lambda>n. if n = 5 then title1 else if n = 8 then title2 else []),
      all_elements := [5, 8]\<rparr>\<close>

text \<open>A ChatGPT page whose one user message (node 1) has an id that ends in a space, an
  \<^verbatim>\<open>x=\<close> and an opening single quote, and a text (in node 2) that starts with a single
  quote.\<close>

definition injection_page :: document where
  \<open>injection_page = blank_page
     \<lparr>querySelectorAll := (\<lambda>s. if s = ''[data-message-author-role="user"]'' then [1] else []),
      node_querySelector :=
        (\<lambda>n s. if n = 1 \<and> s = ''.prose, [class*="markdown"], .whitespace-pre-wrap, .break-words''
               then Some 2 else None),
      textContent :=
        (\<lambda>n. if n = 2 then [CHR 0x27] @ '' onclick='' @ [CHR 0x27] @ ''alert(1)'' @ [CHR 0x27]
             else []),
      node_id := (\<lambda>n. if n = 1 then ''m" x='' @ [CHR 0x27] else []),
      all_elements := [1, 2]\<rparr>\<close>

text \<open>A page on which no element has the id \<^verbatim>\<open>a"b\<close>. The selector that
  \<^verbatim>\<open>scrollToElement\<close> builds from that id, \<^verbatim>\<open>[data-id="a"b"]\<close>, is not a selector.\<close>

definition quote_page :: document where
  \<open>quote_page = blank_page\<lparr>selector_parses := (\<lambda>s. s \<noteq> ''[data-id="a"b"]'')\<rparr>\<close>

section \<open>Panel exclusivity\<close>











section \<open>The question loops\<close>

lemma match_start_ci_Nil: "match_start_ci [] text = False"
  by (simp add: match_start_ci_def)

lemmas question_spec_defs = accepted_def resolved_text_def text_node_def falls_back_def
  min_length_def assistant_speech_def assigned_id_def stamp_def id_or_def
  stamp_if_absent_def or_node_def Let_def match_start_ci_Nil

lemma ChatGPT_question_eq:
  "ChatGPT_question m i (d, qs) =
     (if accepted ChatGPT d m
      then (stamp m (assigned_id ChatGPT d m i) d,
            qs @ [\<lparr>q_id = assigned_id ChatGPT d m i, q_text = preview 100 (resolved_text ChatGPT d m)\<rparr>])
      else (d, qs))"
  by (auto simp: ChatGPT_question_def question_spec_defs split: option.splits)

lemma Perplexity_question_eq:
  "Perplexity_question m i (d, qs) =
     (if accepted Perplexity d m
      then (stamp m (assigned_id Perplexity d m i) d,
            qs @ [\<lparr>q_id = assigned_id Perplexity d m i, q_text = preview 100 (resolved_text Perplexity d m)\<rparr>])
      else (d, qs))"
  by (auto simp: Perplexity_question_def question_spec_defs split: option.splits)

lemma Claude_question_eq:
  "Claude_question m i (d, qs) =
     (if accepted Claude d m
      then (stamp m (assigned_id Claude d m i) d,
            qs @ [\<lparr>q_id = assigned_id Claude d m i, q_text = preview 100 (resolved_text Claude d m)\<rparr>])
      else (d, qs))"
  by (auto simp: Claude_question_def question_spec_defs split: option.splits)

lemma DeepSeek_question_eq:
  "DeepSeek_question m i (d, qs) =
     (if accepted DeepSeek d m
      then (stamp m (assigned_id DeepSeek d m i) d,
            qs @ [\<lparr>q_id = assigned_id DeepSeek d m i, q_text = preview 100 (resolved_text DeepSeek d m)\<rparr>])
      else (d, qs))"
  by (auto simp: DeepSeek_question_def question_spec_defs split: option.splits)

lemma Gemini_question_eq:
  "Gemini_question m i (d, qs) =
     (if accepted Gemini d m
      then (stamp m (assigned_id Gemini d m i) d,
            qs @ [\<lparr>q_id = assigned_id Gemini d m i, q_text = preview 100 (resolved_text Gemini d m)\<rparr>])
      else (d, qs))"
  by (auto simp: Gemini_question_def question_spec_defs split: option.splits)

lemma Copilot_question_eq:
  "Copilot_question m i (d, qs) =
     (if accepted Copilot d m
      then (stamp m (assigned_id Copilot d m i) d,
            qs @ [\<lparr>q_id = assigned_id Copilot d m i, q_text = preview 100 (resolved_text Copilot d m)\<rparr>])
      else (d, qs))"
  by (auto simp: Copilot_question_def question_spec_defs split: option.splits)

lemma Meta_question_eq:
  "Meta_question m i (d, qs) =
     (if accepted Meta d m
      then (stamp m (assigned_id Meta d m i) d,
            qs @ [\<lparr>q_id = assigned_id Meta d m i, q_text = preview 100 (resolved_text Meta d m)\<rparr>])
      else (d, qs))"
  by (auto simp: Meta_question_def question_spec_defs split: option.splits)

lemma Grok_question_eq:
  "Grok_question m i (d, qs) =
     (if accepted Grok d m
      then (stamp m (assigned_id Grok d m i) d,
            qs @ [\<lparr>q_id = assigned_id Grok d m i, q_text = preview 100 (resolved_text Grok d m)\<rparr>])
      else (d, qs))"
  by (auto simp: Grok_question_def question_spec_defs split: option.splits)

lemma question_callback_eq:
  "question_callback p m i (d, qs) =
     (if accepted p d m
      then (stamp m (assigned_id p d m i) d,
            qs @ [\<lparr>q_id = assigned_id p d m i, q_text = preview 100 (resolved_text p d m)\<rparr>])
      else (d, qs))"
  by (cases p)
     (simp_all only: question_callback.simps ChatGPT_question_eq Perplexity_question_eq
        Claude_question_eq DeepSeek_question_eq Gemini_question_eq Copilot_question_eq
        Meta_question_eq Grok_question_eq)

lemma getQuestions_forEach:
  "getQuestions p d = forEach (question_callback p) (userMessages p d) 0 (d, [])"
  by (cases p)
     (simp_all add: ChatGPT_getQuestions_def Perplexity_getQuestions_def Claude_getQuestions_def
        DeepSeek_getQuestions_def Gemini_getQuestions_def Copilot_getQuestions_def
        Meta_getQuestions_def Grok_getQuestions_def)

lemma resolved_text_stamp: "resolved_text p (stamp m x d) = resolved_text p d"
  by (rule ext) (simp add: resolved_text_def text_node_def stamp_def split: option.splits)

lemma accepted_stamp: "accepted p (stamp m x d) = accepted p d"
  by (rule ext) (simp add: accepted_def resolved_text_stamp)

lemma forEach_question_texts:
  "map q_text (snd (forEach (question_callback p) ms i (d, qs))) =
     map q_text qs @ map (\<lambda>m. preview 100 (resolved_text p d m)) (filter (accepted p d) ms)"
proof (induction ms arbitrary: i d qs)
  case Nil
  then show ?case by simp
next
  case (Cons m ms)
  show ?case
  proof (cases "accepted p d m")
    case True
    then show ?thesis
      by (simp add: question_callback_eq Cons.IH resolved_text_stamp accepted_stamp)
  next
    case False
    then show ?thesis
      by (simp add: question_callback_eq Cons.IH)
  qed
qed

lemma getQuestions_texts:
  "map q_text (snd (getQuestions p d)) =
     map (\<lambda>m. preview 100 (resolved_text p d m)) (filter (accepted p d) (userMessages p d))"
  by (simp add: getQuestions_forEach forEach_question_texts)

lemma preview_law: "truncation_law cap T (preview cap T)"
  by (simp add: truncation_law_def preview_def)

lemma trim_replicate: "\<not> is_space c \<Longrightarrow> trim (replicate n c) = replicate n c"
  by (simp add: trim_def)

lemma string_of_nat_0: "string_of_nat 0 = ''0''"
  by (simp add: string_of_nat.simps digit_def)

lemma string_of_nat_1: "string_of_nat (Suc 0) = ''1''"
  by (simp add: string_of_nat.simps digit_def)

section \<open>The chat loops and the fallback\<close>

lemmas chat_spec_defs = chat_accepted_def resolved_title_def title_node_def chrome_label_def
  stored_title_def truncates_titles_def item_href_def assigned_chat_id_def href_class_def
  or_node_def or_else_def Let_def

lemma ChatGPT_chat_eq:
  "ChatGPT_chat d item i chats =
     (if chat_accepted ChatGPT d item
      then chats @ [\<lparr>c_id = assigned_chat_id ChatGPT d item i,
                      c_title = stored_title ChatGPT (resolved_title ChatGPT d item),
                      c_url = item_href ChatGPT d item\<rparr>]
      else chats)"
  by (auto simp: ChatGPT_chat_def chat_spec_defs split: option.splits)

lemma Perplexity_chat_eq:
  "Perplexity_chat d item i chats =
     (if chat_accepted Perplexity d item
      then chats @ [\<lparr>c_id = assigned_chat_id Perplexity d item i,
                      c_title = stored_title Perplexity (resolved_title Perplexity d item),
                      c_url = item_href Perplexity d item\<rparr>]
      else chats)"
  by (auto simp: Perplexity_chat_def chat_spec_defs split: option.splits)

lemma Claude_chat_eq:
  "Claude_chat d item i chats =
     (if chat_accepted Claude d item
      then chats @ [\<lparr>c_id = assigned_chat_id Claude d item i,
                      c_title = stored_title Claude (resolved_title Claude d item),
                      c_url = item_href Claude d item\<rparr>]
      else chats)"
  by (auto simp: Claude_chat_def chat_spec_defs split: option.splits)

lemma DeepSeek_chat_eq:
  "DeepSeek_chat d item i chats =
     (if chat_accepted DeepSeek d item
      then chats @ [\<lparr>c_id = assigned_chat_id DeepSeek d item i,
                      c_title = stored_title DeepSeek (resolved_title DeepSeek d item),
                      c_url = item_href DeepSeek d item\<rparr>]
      else chats)"
  by (auto simp: DeepSeek_chat_def chat_spec_defs split: option.splits)

lemma Gemini_chat_eq:
  "Gemini_chat d item i chats =
     (if chat_accepted Gemini d item
      then chats @ [\<lparr>c_id = assigned_chat_id Gemini d item i,
                      c_title = stored_title Gemini (resolved_title Gemini d item),
                      c_url = item_href Gemini d item\<rparr>]
      else chats)"
  by (auto simp: Gemini_chat_def chat_spec_defs split: option.splits)

lemma Copilot_chat_eq:
  "Copilot_chat d item i chats =
     (if chat_accepted Copilot d item
      then chats @ [\<lparr>c_id = assigned_chat_id Copilot d item i,
                      c_title = stored_title Copilot (resolved_title Copilot d item),
                      c_url = item_href Copilot d item\<rparr>]
      else chats)"
  by (auto simp: Copilot_chat_def chat_spec_defs split: option.splits)

lemma Meta_chat_eq:
  "Meta_chat d item i chats =
     (if chat_accepted Meta d item
      then chats @ [\<lparr>c_id = assigned_chat_id Meta d item i,
                      c_title = stored_title Meta (resolved_title Meta d item),
                      c_url = item_href Meta d item\<rparr>]
      else chats)"
  by (auto simp: Meta_chat_def chat_spec_defs split: option.splits)

lemma Grok_chat_eq:
  "Grok_chat d item i chats =
     (if chat_accepted Grok d item
      then chats @ [\<lparr>c_id = assigned_chat_id Grok d item i,
                      c_title = stored_title Grok (resolved_title Grok d item),
                      c_url = item_href Grok d item\<rparr>]
      else chats)"
  by (auto simp: Grok_chat_def chat_spec_defs split: option.splits)

lemma chat_callback_eq:
  "chat_callback p d item i chats =
     (if chat_accepted p d item
      then chats @ [\<lparr>c_id = assigned_chat_id p d item i,
                      c_title = stored_title p (resolved_title p d item),
                      c_url = item_href p d item\<rparr>]
      else chats)"
  by (cases p)
     (simp_all only: chat_callback.simps ChatGPT_chat_eq Perplexity_chat_eq Claude_chat_eq
        DeepSeek_chat_eq Gemini_chat_eq Copilot_chat_eq Meta_chat_eq Grok_chat_eq)

lemma history_forEach: "history p d = forEach (chat_callback p d) (chatItems p d) 0 []"
  by (cases p)
     (simp_all add: ChatGPT_history_def Perplexity_history_def Claude_history_def
        DeepSeek_history_def Gemini_history_def Copilot_history_def Meta_history_def
        Grok_history_def)

lemma forEach_chat_titles:
  "map c_title (forEach (chat_callback p d) items i chats) =
     map c_title chats @
     map (\<lambda>item. stored_title p (resolved_title p d item)) (filter (chat_accepted p d) items)"
  by (induction items arbitrary: i chats) (simp_all add: chat_callback_eq)

lemma forEach_chat_urls:
  "map c_url (forEach (chat_callback p d) items i chats) =
     map c_url chats @ map (item_href p d) (filter (chat_accepted p d) items)"
  by (induction items arbitrary: i chats) (simp_all add: chat_callback_eq)

lemma history_titles:
  "map c_title (history p d) =
     map (\<lambda>item. stored_title p (resolved_title p d item)) (filter (chat_accepted p d) (chatItems p d))"
  by (simp add: history_forEach forEach_chat_titles)

lemma history_urls:
  "map c_url (history p d) = map (item_href p d) (filter (chat_accepted p d) (chatItems p d))"
  by (simp add: history_forEach forEach_chat_urls)

lemma names_brand_none: "brand_names p = [] \<Longrightarrow> names_brand p t = False"
  by (simp add: names_brand_def)

lemma ChatGPT_current_eq: "ChatGPT_current d = heading_chat ChatGPT d"
  by (simp add: ChatGPT_current_def heading_chat_def names_brand_def split: option.splits)

lemma Gemini_current_eq: "Gemini_current d = heading_chat Gemini d"
  by (simp add: Gemini_current_def heading_chat_def names_brand_def split: option.splits)

lemma Copilot_current_eq: "Copilot_current d = heading_chat Copilot d"
  by (simp add: Copilot_current_def heading_chat_def names_brand_def split: option.splits)

lemma Meta_current_eq: "Meta_current d = heading_chat Meta d"
  by (simp add: Meta_current_def heading_chat_def names_brand_def split: option.splits)

lemma Grok_current_eq: "Grok_current d = heading_chat Grok d"
  by (simp add: Grok_current_def heading_chat_def names_brand_def split: option.splits)

text \<open>The entries synthesized when the history scan found none.\<close>

lemma getChats_no_history:
  assumes "history p d = []"
  shows "getChats p d =
     (if reads_heading p then heading_chat p d
      else if p = Claude then Claude_current d
      else if p = Perplexity then Perplexity_current d
      else [])"
  using assms
  by (cases p)
     (simp_all add: ChatGPT_getChats_def Perplexity_getChats_def Claude_getChats_def
        DeepSeek_getChats_def Gemini_getChats_def Copilot_getChats_def Meta_getChats_def
        Grok_getChats_def reads_heading_def ChatGPT_current_eq Gemini_current_eq
        Copilot_current_eq Meta_current_eq Grok_current_eq)

lemma getChats_history:
  assumes "history p d \<noteq> []"
  shows "getChats p d = history p d"
  using assms
  by (cases p)
     (simp_all add: ChatGPT_getChats_def Perplexity_getChats_def Claude_getChats_def
        DeepSeek_getChats_def Gemini_getChats_def Copilot_getChats_def Meta_getChats_def
        Grok_getChats_def)

lemma Claude_titleLoop_cases:
  "Claude_titleLoop d sels = [] \<or>
   (\<exists>sel \<in> set sels. \<exists>h. querySelector d sel = Some h \<and>
      Claude_qualifies (trim (textContent d h)) \<and>
      Claude_titleLoop d sels =
        [\<lparr>c_id = ''claude-current-chat'', c_title = preview 50 (trim (textContent d h)),
          c_url = Some (location_href d)\<rparr>])"
  by (induction sels) (auto simp: Claude_qualifies_def Let_def split: option.splits)

lemma Claude_titleLoop_found:
  "sel \<in> set sels \<Longrightarrow> querySelector d sel = Some h \<Longrightarrow>
   Claude_qualifies (trim (textContent d h)) \<Longrightarrow> length (Claude_titleLoop d sels) = 1"
  by (induction sels) (auto simp: Claude_qualifies_def Let_def split: option.splits)

lemma length_heading_chat: "length (heading_chat p d) \<le> 1"
  by (simp add: heading_chat_def split: option.splits)

lemma length_Perplexity_current: "length (Perplexity_current d) \<le> 1"
  by (simp add: Perplexity_current_def split: option.splits)

lemma length_Claude_current: "length (Claude_current d) \<le> 1"
  using Claude_titleLoop_cases [of d Claude_titleSelectors]
  by (auto simp: Claude_current_def)

section \<open>Truncation\<close>

lemma question_from_candidate:
  assumes "q \<in> set (snd (getQuestions p d))"
  shows "\<exists>m \<in> set (userMessages p d). accepted p d m \<and> q_text q = preview 100 (resolved_text p d m)"
proof -
  from assms have "q_text q \<in> set (map q_text (snd (getQuestions p d)))"
    by simp
  then have "q_text q \<in> set (map (\<lambda>m. preview 100 (resolved_text p d m))
                                 (filter (accepted p d) (userMessages p d)))"
    by (simp only: getQuestions_texts)
  then show ?thesis by auto
qed

lemma chat_from_item:
  assumes "c \<in> set (history p d)"
  shows "\<exists>item \<in> set (chatItems p d). chat_accepted p d item \<and>
           c_title c = stored_title p (resolved_title p d item)"
proof -
  from assms have "c_title c \<in> set (map c_title (history p d))"
    by simp
  then have "c_title c \<in> set (map (\<lambda>item. stored_title p (resolved_title p d item))
                                  (filter (chat_accepted p d) (chatItems p d)))"
    by (simp only: history_titles)
  then show ?thesis by auto
qed

lemma prefix_Cons_replicate:
  "prefix (a # as) (replicate n c) = (0 < n \<and> a = c \<and> prefix as (replicate (n - 1) c))"
  by (cases n) auto

lemma three_page_questions:
  "snd (Claude_getQuestions three_page) =
     [\<lparr>q_id = ''claude-user-1'', q_text = replicate 50 (CHR ''q'')\<rparr>,
      \<lparr>q_id = ''claude-user-2'', q_text = replicate 100 (CHR ''r'') @ ''...''\<rparr>]"
  by (simp add: Claude_getQuestions_def Claude_userMessages_def Claude_question_def three_page_def
      blank_page_def trim_replicate trim_def is_space_def id_or_def stamp_if_absent_def preview_def
      or_node_def match_start_ci_def toLowerCase_def prefix_Cons_replicate string_of_nat.simps
      digit_def Let_def)

lemma sidebar_page_history:
  "Claude_history sidebar_page =
     [\<lparr>c_id = ''claude-chat-42'', c_title = replicate 50 (CHR ''t'') @ ''...'',
       c_url = Some ''https://claude.ai/chat/42''\<rparr>]"
  by (simp add: Claude_history_def Claude_chatItems_def Claude_chat_def sidebar_page_def
      blank_page_def trim_replicate is_space_def preview_def truthy_def chat_id_from_def
      or_node_def or_else_def not_slash_query_def Let_def)

text \<open>
  C1 (truncation law), as the code has it. On every platform, each question that
  \<^verbatim>\<open>getQuestions\<close> returns comes from an accepted candidate with trimmed text \<open>T\<close>, and
  its stored text obeys the law with cap 100: it is \<open>T\<close> when \<open>T\<close> has at most 100 units,
  and otherwise the first 100 units of \<open>T\<close> followed by the three-unit marker, 103 units
  in all. On the platforms that cut titles (all but ChatGPT and DeepSeek), each title of
  a history entry obeys the same law with cap 50.
\<close>

theorem truncation:
  "(\<forall>q \<in> set (snd (getQuestions p d)). \<exists>m \<in> set (userMessages p d).
       accepted p d m \<and> truncation_law 100 (resolved_text p d m) (q_text q)) \<and>
   (truncates_titles p \<longrightarrow>
      (\<forall>c \<in> set (history p d). \<exists>item \<in> set (chatItems p d).
          chat_accepted p d item \<and> truncation_law 50 (resolved_title p d item) (c_title c)))"
proof (intro conjI ballI impI)
  fix q assume "q \<in> set (snd (getQuestions p d))"
  from question_from_candidate [OF this]
  show "\<exists>m \<in> set (userMessages p d).
          accepted p d m \<and> truncation_law 100 (resolved_text p d m) (q_text q)"
    by (auto simp: preview_law)
next
  fix c assume t: "truncates_titles p" and "c \<in> set (history p d)"
  from chat_from_item [OF this(2)] t
  show "\<exists>item \<in> set (chatItems p d).
          chat_accepted p d item \<and> truncation_law 50 (resolved_title p d item) (c_title c)"
    by (auto simp: stored_title_def preview_law)
qed

theorem truncation_witness:
  "(\<exists>m \<in> set (userMessages Claude three_page). accepted Claude three_page m \<and>
      truncation_law 100 (resolved_text Claude three_page m) (replicate 100 (CHR ''r'') @ ''...'')) \<and>
   truncates_titles Claude \<and>
   (\<exists>item \<in> set (chatItems Claude sidebar_page). chat_accepted Claude sidebar_page item \<and>
      truncation_law 50 (resolved_title Claude sidebar_page item) (replicate 50 (CHR ''t'') @ ''...''))"
proof -
  have t: "truncates_titles Claude"
    by (simp add: truncates_titles_def)
  show ?thesis
    using truncation [of Claude three_page] truncation [of Claude sidebar_page] t
    by (simp add: three_page_questions sidebar_page_history)
qed

theorem truncation_counterexample:
  "snd (getQuestions ChatGPT long_page) =
     [\<lparr>q_id = ''chatgpt-user-0'', q_text = replicate 100 (CHR ''a'') @ ''...''\<rparr>] \<and>
   \<not> length (replicate 100 (CHR ''a'') @ ''...'') \<le> 100 \<and>
   getChats ChatGPT long_page =
     [\<lparr>c_id = ''chat-abc'', c_title = replicate 51 (CHR ''b''),
       c_url = Some ''https://chatgpt.com/c/abc''\<rparr>] \<and>
   \<not> length (replicate 51 (CHR ''b'')) \<le> 50"
proof -
  have q: "snd (getQuestions ChatGPT long_page) =
     [\<lparr>q_id = ''chatgpt-user-0'', q_text = replicate 100 (CHR ''a'') @ ''...''\<rparr>]"
    by (simp add: ChatGPT_getQuestions_def ChatGPT_userMessages_def ChatGPT_question_def
        long_page_def blank_page_def trim_replicate is_space_def id_or_def stamp_if_absent_def
        preview_def string_of_nat_0 Let_def)
  have c: "getChats ChatGPT long_page =
     [\<lparr>c_id = ''chat-abc'', c_title = replicate 51 (CHR ''b''),
       c_url = Some ''https://chatgpt.com/c/abc''\<rparr>]"
    by (simp add: ChatGPT_getChats_def ChatGPT_history_def ChatGPT_chatItems_def ChatGPT_chat_def
        long_page_def blank_page_def trim_replicate is_space_def ChatGPT_href_def truthy_def
        chat_id_from_def or_node_def or_else_def not_slash_def Let_def)
  show ?thesis using q c by simp
qed

section \<open>Minimum signal\<close>

lemma assistant_speech_none: "assistant_labels p = [] \<Longrightarrow> assistant_speech p t = False"
  by (simp add: assistant_speech_def match_start_ci_Nil)

text \<open>
  C4 (minimum-signal rejection), as the code has it. On every platform the texts returned
  are those of the accepted candidates, in order, and a candidate that is not accepted
  leaves the loop's state as it was. A candidate whose resolved, trimmed text is empty is
  never accepted. On every platform but ChatGPT and DeepSeek a text shorter than 10 units
  is not accepted; a text of at least 10 units that is not assistant speech is accepted
  everywhere; ChatGPT and DeepSeek accept every non-empty text.
\<close>

theorem min_signal_rejection:
  "map q_text (snd (getQuestions p d)) =
     map (\<lambda>m. preview 100 (resolved_text p d m)) (filter (accepted p d) (userMessages p d)) \<and>
   (\<not> accepted p d m \<longrightarrow> question_callback p m i (d, qs) = (d, qs)) \<and>
   (resolved_text p d m = [] \<longrightarrow> \<not> accepted p d m) \<and>
   (p \<noteq> ChatGPT \<and> p \<noteq> DeepSeek \<and> length (resolved_text p d m) < 10 \<longrightarrow> \<not> accepted p d m) \<and>
   (10 \<le> length (resolved_text p d m) \<and> \<not> assistant_speech p (resolved_text p d m) \<longrightarrow>
      accepted p d m) \<and>
   ((p = ChatGPT \<or> p = DeepSeek) \<and> resolved_text p d m \<noteq> [] \<longrightarrow> accepted p d m)"
proof -
  have a: "map q_text (snd (getQuestions p d)) =
     map (\<lambda>m. preview 100 (resolved_text p d m)) (filter (accepted p d) (userMessages p d))"
    by (rule getQuestions_texts)
  have b: "\<not> accepted p d m \<longrightarrow> question_callback p m i (d, qs) = (d, qs)"
    by (simp add: question_callback_eq)
  have c: "resolved_text p d m = [] \<longrightarrow> \<not> accepted p d m"
    by (simp add: accepted_def)
  have e: "p \<noteq> ChatGPT \<and> p \<noteq> DeepSeek \<and> length (resolved_text p d m) < 10 \<longrightarrow> \<not> accepted p d m"
    by (simp add: accepted_def min_length_def)
  have f: "10 \<le> length (resolved_text p d m) \<and> \<not> assistant_speech p (resolved_text p d m) \<longrightarrow>
      accepted p d m"
    by (auto simp: accepted_def min_length_def)
  have g: "(p = ChatGPT \<or> p = DeepSeek) \<and> resolved_text p d m \<noteq> [] \<longrightarrow> accepted p d m"
    by (auto simp: accepted_def min_length_def assistant_speech_none)
  show ?thesis using a b c e f g by blast
qed

theorem min_signal_rejection_witness:
  "length (resolved_text Claude three_page 1) < 10 \<and>
   \<not> accepted Claude three_page 1 \<and>
   question_callback Claude 1 0 (three_page, []) = (three_page, []) \<and>
   accepted Claude three_page 2 \<and>
   map (\<lambda>m. preview 100 (resolved_text Claude three_page m))
     (filter (accepted Claude three_page) (userMessages Claude three_page)) =
     [replicate 50 (CHR ''q''), replicate 100 (CHR ''r'') @ ''...''] \<and>
   accepted ChatGPT short_page 1"
proof -
  have r: "resolved_text Claude three_page 1 = ''hello''"
    by (simp add: resolved_text_def text_node_def falls_back_def three_page_def blank_page_def
        trim_def is_space_def)
  have s: "Claude \<noteq> ChatGPT \<and> Claude \<noteq> DeepSeek \<and> length (resolved_text Claude three_page 1) < 10"
    using r by simp
  have r2: "resolved_text Claude three_page 2 = replicate 50 (CHR ''q'')"
    by (simp add: resolved_text_def text_node_def falls_back_def three_page_def blank_page_def
        trim_replicate is_space_def)
  have s2: "10 \<le> length (resolved_text Claude three_page 2) \<and>
            \<not> assistant_speech Claude (resolved_text Claude three_page 2)"
    by (simp add: r2 assistant_speech_def match_start_ci_def prefix_Cons_replicate
        toLowerCase_def)
  have r3: "resolved_text ChatGPT short_page 1 = ''hi''"
    by (simp add: resolved_text_def text_node_def short_page_def blank_page_def trim_def
        is_space_def)
  have s3: "(ChatGPT = ChatGPT \<or> ChatGPT = DeepSeek) \<and> resolved_text ChatGPT short_page 1 \<noteq> []"
    using r3 by simp
  have t: "map q_text (snd (getQuestions Claude three_page)) =
     [replicate 50 (CHR ''q''), replicate 100 (CHR ''r'') @ ''...'']"
    by (simp add: three_page_questions)
  from min_signal_rejection [of Claude three_page 1 0 "[]"] s t
  have 1: "length (resolved_text Claude three_page 1) < 10 \<and>
   \<not> accepted Claude three_page 1 \<and>
   question_callback Claude 1 0 (three_page, []) = (three_page, []) \<and>
   map (\<lambda>m. preview 100 (resolved_text Claude three_page m))
     (filter (accepted Claude three_page) (userMessages Claude three_page)) =
     [replicate 50 (CHR ''q''), replicate 100 (CHR ''r'') @ ''...'']"
    by metis
  from min_signal_rejection [of Claude three_page 2 0 "[]"] s2
  have 2: "accepted Claude three_page 2"
    by blast
  from min_signal_rejection [of ChatGPT short_page 1 0 "[]"] s3
  have 3: "accepted ChatGPT short_page 1"
    by blast
  show ?thesis using 1 2 3 by blast
qed

theorem min_signal_counterexample:
  "ChatGPT_userMessages short_page = [1] \<and>
   node_querySelector short_page 1
     ''.prose, [class*=\"markdown\"], .whitespace-pre-wrap, .break-words'' = Some 2 \<and>
   trim (textContent short_page 2) = ''hi'' \<and> length ''hi'' < (10::nat) \<and>
   snd (getQuestions ChatGPT short_page) = [\<lparr>q_id = ''chatgpt-user-0'', q_text = ''hi''\<rparr>]"
  by (simp add: ChatGPT_getQuestions_def ChatGPT_userMessages_def ChatGPT_question_def
      short_page_def blank_page_def trim_def is_space_def id_or_def stamp_if_absent_def
      preview_def string_of_nat_0 Let_def)

section \<open>Ids\<close>


lemma id_prefix_nonempty: "id_prefix p \<noteq> []"
  by (cases p) simp_all

lemma assigned_id_nonempty: "assigned_id p d m i \<noteq> []"
  by (simp add: assigned_id_def id_prefix_nonempty)

lemma forEach_ids_stamped:
  assumes "p \<noteq> DeepSeek"
  shows "(\<forall>x. node_id d x \<noteq> [] \<longrightarrow>
            node_id (fst (forEach (question_callback p) ms i (d, qs))) x = node_id d x) \<and>
         (\<forall>q \<in> set (snd (forEach (question_callback p) ms i (d, qs))).
            q \<in> set qs \<or>
            (\<exists>m \<in> set ms. node_id (fst (forEach (question_callback p) ms i (d, qs))) m = q_id q))"
proof (induction ms arbitrary: i d qs)
  case Nil
  then show ?case by simp
next
  case (Cons m ms)
  show ?case
  proof (cases "accepted p d m")
    case False
    then show ?thesis
      using Cons.IH [where i = "Suc i" and d = d and qs = qs] by (auto simp: question_callback_eq)
  next
    case True
    let ?a = "assigned_id p d m i"
    let ?d1 = "stamp m ?a d"
    let ?q = "\<lparr>q_id = ?a, q_text = preview 100 (resolved_text p d m)\<rparr>"
    let ?r = "forEach (question_callback p) ms (Suc i) (?d1, qs @ [?q])"
    have step: "forEach (question_callback p) (m # ms) i (d, qs) = ?r"
      using True by (simp add: question_callback_eq)
    have keep: "node_id ?d1 x = node_id d x" if "node_id d x \<noteq> []" for x
      using assms that by (auto simp: stamp_def assigned_id_def)
    have new: "node_id ?d1 m = ?a"
      by (simp add: stamp_def)
    from Cons.IH [where i = "Suc i" and d = ?d1 and qs = "qs @ [?q]"]
    have ih1: "\<And>x. node_id ?d1 x \<noteq> [] \<Longrightarrow> node_id (fst ?r) x = node_id ?d1 x"
      and ih2: "\<And>q. q \<in> set (snd ?r) \<Longrightarrow>
                 q \<in> set (qs @ [?q]) \<or> (\<exists>m \<in> set ms. node_id (fst ?r) m = q_id q)"
      by blast+
    have a: "node_id (fst ?r) x = node_id d x" if "node_id d x \<noteq> []" for x
      using ih1 [of x] keep [OF that] that by simp
    have m_final: "node_id (fst ?r) m = ?a"
      using ih1 [of m] new assigned_id_nonempty [of p d m i] by simp
    have b: "q \<in> set qs \<or> (\<exists>m' \<in> set (m # ms). node_id (fst ?r) m' = q_id q)"
      if "q \<in> set (snd ?r)" for q
      using ih2 [OF that] m_final by auto
    show ?thesis
      unfolding step using a b by blast
  qed
qed

lemma getQuestions_ids_stamped:
  assumes "p \<noteq> DeepSeek"
  shows "(\<forall>x. node_id d x \<noteq> [] \<longrightarrow> node_id (fst (getQuestions p d)) x = node_id d x) \<and>
         (\<forall>q \<in> set (snd (getQuestions p d)).
            \<exists>m \<in> set (userMessages p d). node_id (fst (getQuestions p d)) m = q_id q)"
  using forEach_ids_stamped [OF assms, of d "userMessages p d" 0 "[]"]
  by (simp add: getQuestions_forEach)

text \<open>
  C5 (id assignment), as the code has it. \<^verbatim>\<open>getQuestions\<close> is the loop of the platform's
  callback over its candidates. For an accepted candidate the callback appends one question
  whose id is also the id the element carries afterwards. On every platform but DeepSeek
  that id is the element's own id when it has one, and the page is then left as it was;
  otherwise it is the platform's prefix followed by the index. DeepSeek always assigns
  \<^verbatim>\<open>deepseek-user-\<close> and the index, over any id the element had. The prefix is the
  platform's name and \<^verbatim>\<open>-user-\<close>, except on Perplexity, where it is
  \<^verbatim>\<open>perplexity-query-\<close>. On every platform but DeepSeek, after the whole pass an
  element that had an id still has it, and every returned id is the id of one of the
  candidates on the page.
\<close>

theorem id_assignment:
  "getQuestions p d = forEach (question_callback p) (userMessages p d) 0 (d, []) \<and>
   (accepted p d m \<longrightarrow>
      snd (question_callback p m i (d, qs)) =
        qs @ [\<lparr>q_id = assigned_id p d m i, q_text = preview 100 (resolved_text p d m)\<rparr>] \<and>
      node_id (fst (question_callback p m i (d, qs))) = (node_id d)(m := assigned_id p d m i) \<and>
      (p \<noteq> DeepSeek \<and> node_id d m \<noteq> [] \<longrightarrow>
         assigned_id p d m i = node_id d m \<and> fst (question_callback p m i (d, qs)) = d) \<and>
      (p \<noteq> DeepSeek \<and> node_id d m = [] \<longrightarrow>
         assigned_id p d m i = id_prefix p @ string_of_nat i) \<and>
      (p = DeepSeek \<longrightarrow> assigned_id p d m i = ''deepseek-user-'' @ string_of_nat i)) \<and>
   id_prefix p = (if p = Perplexity then ''perplexity-query-'' else platform_name p @ ''-user-'') \<and>
   (p \<noteq> DeepSeek \<longrightarrow>
      (\<forall>x. node_id d x \<noteq> [] \<longrightarrow> node_id (fst (getQuestions p d)) x = node_id d x) \<and>
      (\<forall>q \<in> set (snd (getQuestions p d)).
          \<exists>m \<in> set (userMessages p d). node_id (fst (getQuestions p d)) m = q_id q))"
proof -
  have a: "getQuestions p d = forEach (question_callback p) (userMessages p d) 0 (d, [])"
    by (rule getQuestions_forEach)
  have b: "accepted p d m \<longrightarrow>
      snd (question_callback p m i (d, qs)) =
        qs @ [\<lparr>q_id = assigned_id p d m i, q_text = preview 100 (resolved_text p d m)\<rparr>] \<and>
      node_id (fst (question_callback p m i (d, qs))) = (node_id d)(m := assigned_id p d m i)"
    by (simp add: question_callback_eq stamp_def)
  have c: "accepted p d m \<longrightarrow> p \<noteq> DeepSeek \<and> node_id d m \<noteq> [] \<longrightarrow>
      assigned_id p d m i = node_id d m \<and> fst (question_callback p m i (d, qs)) = d"
    by (simp add: question_callback_eq stamp_def assigned_id_def)
  have e: "p \<noteq> DeepSeek \<and> node_id d m = [] \<longrightarrow> assigned_id p d m i = id_prefix p @ string_of_nat i"
    by (simp add: assigned_id_def)
  have f: "p = DeepSeek \<longrightarrow> assigned_id p d m i = ''deepseek-user-'' @ string_of_nat i"
    by (simp add: assigned_id_def)
  have g: "id_prefix p = (if p = Perplexity then ''perplexity-query-'' else platform_name p @ ''-user-'')"
    by (cases p) simp_all
  have h: "p \<noteq> DeepSeek \<longrightarrow>
      (\<forall>x. node_id d x \<noteq> [] \<longrightarrow> node_id (fst (getQuestions p d)) x = node_id d x) \<and>
      (\<forall>q \<in> set (snd (getQuestions p d)).
          \<exists>m \<in> set (userMessages p d). node_id (fst (getQuestions p d)) m = q_id q)"
    using getQuestions_ids_stamped [of p d] by blast
  show ?thesis using a b c e f g h by blast
qed

theorem id_assignment_witness:
  "accepted ChatGPT stamped_page 1 \<and>
   snd (question_callback ChatGPT 1 0 (stamped_page, [])) =
     [\<lparr>q_id = ''msg-7'', q_text = ''What is HOL?''\<rparr>] \<and>
   fst (question_callback ChatGPT 1 0 (stamped_page, [])) = stamped_page \<and>
   accepted ChatGPT stamped_page 3 \<and>
   snd (question_callback ChatGPT 3 1 (stamped_page, [])) =
     [\<lparr>q_id = ''chatgpt-user-1'', q_text = ''Explain induction''\<rparr>] \<and>
   node_id (fst (question_callback ChatGPT 3 1 (stamped_page, []))) 3 = ''chatgpt-user-1'' \<and>
   node_id (fst (getQuestions ChatGPT stamped_page)) 1 = ''msg-7'' \<and>
   accepted DeepSeek stamped_page 1 \<and>
   snd (question_callback DeepSeek 1 0 (stamped_page, [])) =
     [\<lparr>q_id = ''deepseek-user-0'', q_text = ''What is HOL?''\<rparr>] \<and>
   node_id (fst (question_callback DeepSeek 1 0 (stamped_page, []))) 1 = ''deepseek-user-0''"
proof -
  have r1: "resolved_text ChatGPT stamped_page 1 = ''What is HOL?''"
    by (simp add: resolved_text_def text_node_def stamped_page_def blank_page_def trim_def
        is_space_def)
  have r3: "resolved_text ChatGPT stamped_page 3 = ''Explain induction''"
    by (simp add: resolved_text_def text_node_def stamped_page_def blank_page_def trim_def
        is_space_def)
  have r1': "resolved_text DeepSeek stamped_page 1 = ''What is HOL?''"
    by (simp add: resolved_text_def text_node_def stamped_page_def blank_page_def trim_def
        is_space_def)
  have a1: "accepted ChatGPT stamped_page 1"
    using r1 by (simp add: accepted_def min_length_def assistant_speech_def match_start_ci_Nil)
  have a3: "accepted ChatGPT stamped_page 3"
    using r3 by (simp add: accepted_def min_length_def assistant_speech_def match_start_ci_Nil)
  have a1': "accepted DeepSeek stamped_page 1"
    using r1' by (simp add: accepted_def min_length_def assistant_speech_def match_start_ci_Nil)
  have i1: "node_id stamped_page 1 = ''msg-7''"
    by (simp add: stamped_page_def blank_page_def)
  have i3: "node_id stamped_page 3 = []"
    by (simp add: stamped_page_def blank_page_def)
  have p1: "preview 100 ''What is HOL?'' = ''What is HOL?''"
    by (simp add: preview_def)
  have p3: "preview 100 ''Explain induction'' = ''Explain induction''"
    by (simp add: preview_def)
  have c: "ChatGPT \<noteq> DeepSeek"
    by simp
  from id_assignment [of ChatGPT stamped_page 1 0 "[]"] c
  have "\<forall>x. node_id stamped_page x \<noteq> [] \<longrightarrow>
          node_id (fst (getQuestions ChatGPT stamped_page)) x = node_id stamped_page x"
    by blast
  then have k: "node_id (fst (getQuestions ChatGPT stamped_page)) 1 = ''msg-7''"
    using i1 by simp
  have "accepted ChatGPT stamped_page 1 \<and>
   snd (question_callback ChatGPT 1 0 (stamped_page, [])) =
     [\<lparr>q_id = ''msg-7'', q_text = ''What is HOL?''\<rparr>] \<and>
   fst (question_callback ChatGPT 1 0 (stamped_page, [])) = stamped_page \<and>
   accepted ChatGPT stamped_page 3 \<and>
   snd (question_callback ChatGPT 3 1 (stamped_page, [])) =
     [\<lparr>q_id = ''chatgpt-user-1'', q_text = ''Explain induction''\<rparr>] \<and>
   node_id (fst (question_callback ChatGPT 3 1 (stamped_page, []))) 3 = ''chatgpt-user-1''"
    using id_assignment [of ChatGPT stamped_page 1 0 "[]"]
      id_assignment [of ChatGPT stamped_page 3 1 "[]"] a1 a3 r1 r3 i1 i3 p1 p3
    by (simp add: string_of_nat_1)
  moreover have "accepted DeepSeek stamped_page 1 \<and>
   snd (question_callback DeepSeek 1 0 (stamped_page, [])) =
     [\<lparr>q_id = ''deepseek-user-0'', q_text = ''What is HOL?''\<rparr>] \<and>
   node_id (fst (question_callback DeepSeek 1 0 (stamped_page, []))) 1 = ''deepseek-user-0''"
    using id_assignment [of DeepSeek stamped_page 1 0 "[]"] a1' r1' p1
    by (simp add: string_of_nat_0)
  ultimately show ?thesis using k by blast
qed

theorem id_assignment_counterexample:
  "node_id stamped_page 1 = ''msg-7'' \<and>
   snd (getQuestions DeepSeek stamped_page) =
     [\<lparr>q_id = ''deepseek-user-0'', q_text = ''What is HOL?''\<rparr>,
      \<lparr>q_id = ''deepseek-user-1'', q_text = ''Explain induction''\<rparr>] \<and>
   node_id (fst (getQuestions DeepSeek stamped_page)) 1 = ''deepseek-user-0'' \<and>
   snd (getQuestions Perplexity stamped_page) =
     [\<lparr>q_id = ''msg-7'', q_text = ''What is HOL?''\<rparr>,
      \<lparr>q_id = ''perplexity-query-1'', q_text = ''Explain induction''\<rparr>]"
proof -
  have a: "node_id stamped_page 1 = ''msg-7''"
    by (simp add: stamped_page_def blank_page_def)
  have b: "DeepSeek_getQuestions stamped_page =
     (stamped_page\<lparr>node_id := (node_id stamped_page)(1 := ''deepseek-user-0'', 3 := ''deepseek-user-1'')\<rparr>,
      [\<lparr>q_id = ''deepseek-user-0'', q_text = ''What is HOL?''\<rparr>,
       \<lparr>q_id = ''deepseek-user-1'', q_text = ''Explain induction''\<rparr>])"
    by (simp add: DeepSeek_getQuestions_def DeepSeek_userMessages_def DeepSeek_question_def
        stamped_page_def blank_page_def trim_def is_space_def preview_def string_of_nat_0
        string_of_nat_1 Let_def)
  have c: "snd (Perplexity_getQuestions stamped_page) =
     [\<lparr>q_id = ''msg-7'', q_text = ''What is HOL?''\<rparr>,
      \<lparr>q_id = ''perplexity-query-1'', q_text = ''Explain induction''\<rparr>]"
    by (simp add: Perplexity_getQuestions_def Perplexity_userMessages_def Perplexity_question_def
        stamped_page_def blank_page_def trim_def is_space_def id_or_def stamp_if_absent_def
        or_node_def preview_def string_of_nat_1 Let_def)
  show ?thesis using a b c by simp
qed

section \<open>The fallback\<close>

lemma heading_page_no_history: "history p (heading_page t) = []"
  by (cases p)
     (simp_all add: ChatGPT_history_def ChatGPT_chatItems_def Perplexity_history_def
        Perplexity_chatItems_def Claude_history_def Claude_chatItems_def DeepSeek_history_def
        DeepSeek_chatItems_def Gemini_history_def Gemini_chatItems_def Copilot_history_def
        Copilot_chatItems_def Meta_history_def Meta_chatItems_def Grok_history_def
        Grok_chatItems_def heading_page_def blank_page_def)

lemma Perplexity_current_cases:
  "c \<in> set (Perplexity_current d) \<Longrightarrow>
     \<exists>n v. querySelector d
              ''input[type=\"text\"], .search-input, [placeholder*=\"search\"], [placeholder*=\"Ask\"]'' = Some n \<and>
           node_value d n = Some v \<and> v \<noteq> [] \<and>
           c = \<lparr>c_id = ''perplexity-current-search'', c_title = v, c_url = Some (location_href d)\<rparr>"
  by (fastforce simp: Perplexity_current_def truthy_def split: option.splits if_splits)

lemma fallback_shape:
  "history p d = [] \<longrightarrow>
     length (getChats p d) \<le> 1 \<and>
     (reads_heading p \<longrightarrow> getChats p d = heading_chat p d) \<and>
     (p = ChatGPT \<or> p = Grok \<longrightarrow> \<not> names_brand p t) \<and>
     (p = DeepSeek \<longrightarrow> getChats p d = []) \<and>
     (p = Claude \<longrightarrow>
        (\<forall>c \<in> set (getChats p d). \<exists>sel \<in> set Claude_titleSelectors. \<exists>h.
            querySelector d sel = Some h \<and> Claude_qualifies (trim (textContent d h)) \<and>
            c = \<lparr>c_id = ''claude-current-chat'', c_title = preview 50 (trim (textContent d h)),
                 c_url = Some (location_href d)\<rparr>) \<and>
        (\<forall>sel \<in> set Claude_titleSelectors. \<forall>h.
            querySelector d sel = Some h \<and> Claude_qualifies (trim (textContent d h)) \<longrightarrow>
            length (getChats p d) = 1)) \<and>
     (p = Perplexity \<longrightarrow>
        (\<forall>c \<in> set (getChats p d). \<exists>n v.
            querySelector d
              ''input[type=\"text\"], .search-input, [placeholder*=\"search\"], [placeholder*=\"Ask\"]'' = Some n \<and>
            node_value d n = Some v \<and> v \<noteq> [] \<and>
            c = \<lparr>c_id = ''perplexity-current-search'', c_title = v,
                 c_url = Some (location_href d)\<rparr>))"
proof
  assume h: "history p d = []"
  note g = getChats_no_history [OF h]
  have a: "length (getChats p d) \<le> 1"
    using length_heading_chat [of p d] length_Claude_current [of d]
      length_Perplexity_current [of d]
    by (auto simp: g simp del: getChats.simps)
  have b: "reads_heading p \<longrightarrow> getChats p d = heading_chat p d"
    by (simp add: g)
  have b': "p = ChatGPT \<or> p = Grok \<longrightarrow> \<not> names_brand p t"
    by (auto simp: names_brand_def)
  have c: "p = DeepSeek \<longrightarrow> getChats p d = []"
    using g by (auto simp: reads_heading_def simp del: getChats.simps)
  have gC: "getChats p d = Claude_titleLoop d Claude_titleSelectors" if "p = Claude"
    using g that by (simp add: reads_heading_def Claude_current_def del: getChats.simps)
  have gP: "getChats p d = Perplexity_current d" if "p = Perplexity"
    using g that by (simp add: reads_heading_def del: getChats.simps)
  have e: "p = Claude \<longrightarrow>
        (\<forall>c \<in> set (getChats p d). \<exists>sel \<in> set Claude_titleSelectors. \<exists>h.
            querySelector d sel = Some h \<and> Claude_qualifies (trim (textContent d h)) \<and>
            c = \<lparr>c_id = ''claude-current-chat'', c_title = preview 50 (trim (textContent d h)),
                 c_url = Some (location_href d)\<rparr>)"
  proof (intro impI ballI)
    fix c assume pc: "p = Claude" and c: "c \<in> set (getChats p d)"
    from c have "c \<in> set (Claude_titleLoop d Claude_titleSelectors)"
      unfolding gC [OF pc] .
    then have ne: "Claude_titleLoop d Claude_titleSelectors \<noteq> []"
      by auto
    with Claude_titleLoop_cases [of d Claude_titleSelectors]
    obtain sel h where sh: "sel \<in> set Claude_titleSelectors" "querySelector d sel = Some h"
        "Claude_qualifies (trim (textContent d h))"
        "Claude_titleLoop d Claude_titleSelectors =
           [\<lparr>c_id = ''claude-current-chat'', c_title = preview 50 (trim (textContent d h)),
             c_url = Some (location_href d)\<rparr>]"
      by blast
    from \<open>c \<in> set (Claude_titleLoop d Claude_titleSelectors)\<close> sh(4)
    have "c = \<lparr>c_id = ''claude-current-chat'', c_title = preview 50 (trim (textContent d h)),
                 c_url = Some (location_href d)\<rparr>"
      by simp
    with sh(1-3)
    show "\<exists>sel \<in> set Claude_titleSelectors. \<exists>h.
            querySelector d sel = Some h \<and> Claude_qualifies (trim (textContent d h)) \<and>
            c = \<lparr>c_id = ''claude-current-chat'', c_title = preview 50 (trim (textContent d h)),
                 c_url = Some (location_href d)\<rparr>"
      by blast
  qed
  have f: "p = Claude \<longrightarrow>
        (\<forall>sel \<in> set Claude_titleSelectors. \<forall>h.
            querySelector d sel = Some h \<and> Claude_qualifies (trim (textContent d h)) \<longrightarrow>
            length (getChats p d) = 1)"
  proof (intro impI ballI allI)
    fix sel h
    assume pc: "p = Claude" and s: "sel \<in> set Claude_titleSelectors"
      and q: "querySelector d sel = Some h \<and> Claude_qualifies (trim (textContent d h))"
    from s q have "length (Claude_titleLoop d Claude_titleSelectors) = 1"
      using Claude_titleLoop_found [of sel Claude_titleSelectors d h] by blast
    then show "length (getChats p d) = 1"
      unfolding gC [OF pc] .
  qed
  have i: "p = Perplexity \<longrightarrow>
        (\<forall>c \<in> set (getChats p d). \<exists>n v.
            querySelector d
              ''input[type=\"text\"], .search-input, [placeholder*=\"search\"], [placeholder*=\"Ask\"]'' = Some n \<and>
            node_value d n = Some v \<and> v \<noteq> [] \<and>
            c = \<lparr>c_id = ''perplexity-current-search'', c_title = v,
                 c_url = Some (location_href d)\<rparr>)"
  proof (intro impI ballI)
    fix c assume pp: "p = Perplexity" and c: "c \<in> set (getChats p d)"
    from c have "c \<in> set (Perplexity_current d)"
      unfolding gP [OF pp] .
    then show "\<exists>n v.
            querySelector d
              ''input[type=\"text\"], .search-input, [placeholder*=\"search\"], [placeholder*=\"Ask\"]'' = Some n \<and>
            node_value d n = Some v \<and> v \<noteq> [] \<and>
            c = \<lparr>c_id = ''perplexity-current-search'', c_title = v,
                 c_url = Some (location_href d)\<rparr>"
      by (rule Perplexity_current_cases)
  qed
  show "length (getChats p d) \<le> 1 \<and>
     (reads_heading p \<longrightarrow> getChats p d = heading_chat p d) \<and>
     (p = ChatGPT \<or> p = Grok \<longrightarrow> \<not> names_brand p t) \<and>
     (p = DeepSeek \<longrightarrow> getChats p d = []) \<and>
     (p = Claude \<longrightarrow>
        (\<forall>c \<in> set (getChats p d). \<exists>sel \<in> set Claude_titleSelectors. \<exists>h.
            querySelector d sel = Some h \<and> Claude_qualifies (trim (textContent d h)) \<and>
            c = \<lparr>c_id = ''claude-current-chat'', c_title = preview 50 (trim (textContent d h)),
                 c_url = Some (location_href d)\<rparr>) \<and>
        (\<forall>sel \<in> set Claude_titleSelectors. \<forall>h.
            querySelector d sel = Some h \<and> Claude_qualifies (trim (textContent d h)) \<longrightarrow>
            length (getChats p d) = 1)) \<and>
     (p = Perplexity \<longrightarrow>
        (\<forall>c \<in> set (getChats p d). \<exists>n v.
            querySelector d
              ''input[type=\"text\"], .search-input, [placeholder*=\"search\"], [placeholder*=\"Ask\"]'' = Some n \<and>
            node_value d n = Some v \<and> v \<noteq> [] \<and>
            c = \<lparr>c_id = ''perplexity-current-search'', c_title = v,
                 c_url = Some (location_href d)\<rparr>))"
    using a b b' c e f i by blast
qed

lemma Claude_titleLoop_first: "Claude_titleLoop d sels = first_title_chat d sels"
proof (induction sels)
  case Nil
  then show ?case
    by (simp add: first_title_chat_def map_filter_simps)
next
  case (Cons sel sels)
  show ?case
  proof (cases "Claude_title_at d sel")
    case None
    then have "Claude_titleLoop d (sel # sels) = Claude_titleLoop d sels"
      by (auto simp: Claude_title_at_def Claude_qualifies_def Let_def split: option.splits if_splits)
    moreover have "first_title_chat d (sel # sels) = first_title_chat d sels"
      using None by (simp add: first_title_chat_def map_filter_simps)
    ultimately show ?thesis
      using Cons.IH by simp
  next
    case (Some title)
    then have "Claude_titleLoop d (sel # sels) = [current_chat Claude d (preview 50 title)]"
      by (auto simp: Claude_title_at_def Claude_qualifies_def current_chat_def Let_def
            split: option.splits if_splits)
    moreover have "first_title_chat d (sel # sels) = [current_chat Claude d (preview 50 title)]"
      using Some by (simp add: first_title_chat_def map_filter_simps)
    ultimately show ?thesis by simp
  qed
qed

lemma first_title_chat_at:
  assumes "sels = pre @ sel # post" and "\<forall>s \<in> set pre. Claude_title_at d s = None"
    and "Claude_title_at d sel = Some title"
  shows "first_title_chat d sels = [current_chat Claude d (preview 50 title)]"
proof -
  have "List.map_filter (Claude_title_at d) pre = []"
    using assms(2) by (induction pre) (simp_all add: map_filter_simps)
  then have "List.map_filter (Claude_title_at d) sels =
             title # List.map_filter (Claude_title_at d) post"
    using assms(1,3) by (simp add: map_filter_def)
  then show ?thesis
    by (simp add: first_title_chat_def)
qed

lemma Perplexity_current_input: "Perplexity_current d = input_chat d"
  by (simp add: Perplexity_current_def input_chat_def search_input_selector_def truthy_def
      current_chat_def split: option.splits)

lemma two_heading_page_no_history: "history Claude (two_heading_page a b) = []"
  by (simp add: Claude_history_def Claude_chatItems_def two_heading_page_def blank_page_def)

lemma two_heading_page_titles:
  "Claude_title_at (two_heading_page a b) ''h1'' =
     (if Claude_qualifies (trim a) then Some (trim a) else None) \<and>
   Claude_title_at (two_heading_page a b) ''.conversation-title'' = None \<and>
   Claude_title_at (two_heading_page a b) ''[class*=\"title\"]'' = None \<and>
   Claude_title_at (two_heading_page a b) ''.text-xl'' = None \<and>
   Claude_title_at (two_heading_page a b) ''.text-lg'' =
     (if Claude_qualifies (trim b) then Some (trim b) else None)"
  by (simp add: Claude_title_at_def querySelector_def two_heading_page_def blank_page_def)

lemma plain_titles:
  "Claude_qualifies ''Project Plan'' \<and> trim ''Project Plan'' = ''Project Plan'' \<and>
   Claude_qualifies ''Sidebar label'' \<and> trim ''Sidebar label'' = ''Sidebar label'' \<and>
   \<not> Claude_qualifies ''Claude'' \<and> trim ''Claude'' = ''Claude''"
  by (simp add: Claude_qualifies_def trim_def is_space_def match_start_ci_def toLowerCase_def)

text \<open>
  C6 (chat fallback policy), as the code has it. When the history scan yields no entry,
  \<^verbatim>\<open>getChats\<close> returns at most one chat. On ChatGPT, Gemini, Copilot, Meta and Grok it is
  the chat of the first node matching the platform's heading selector, made when the
  node's trimmed text is not empty and the text contains none of the brand names the
  platform tests (none on ChatGPT and Grok); otherwise the result is empty. DeepSeek has no
  fallback and returns the empty sequence. Claude tries its title selectors in their order
  and its result is the chat of the first selector whose first match has a title that is
  not empty, is not \<^verbatim>\<open>Claude\<close> and does not start with \<^verbatim>\<open>New\<close> or \<^verbatim>\<open>Untitled\<close>: when
  every selector before one gives no such title and that one gives a title, the result is
  the one chat with that title cut at 50 units; it is empty when no selector gives one.
  On Perplexity the result is the one chat titled with the value of the first search input
  when that value is not empty, and is empty otherwise.
\<close>

theorem chat_fallback_policy:
  "history p d = [] \<longrightarrow>
     length (getChats p d) \<le> 1 \<and>
     (reads_heading p \<longrightarrow> getChats p d = heading_chat p d) \<and>
     (p = ChatGPT \<or> p = Grok \<longrightarrow> \<not> names_brand p t) \<and>
     (p = DeepSeek \<longrightarrow> getChats p d = []) \<and>
     (p = Claude \<longrightarrow>
        getChats p d = first_title_chat d Claude_titleSelectors \<and>
        (\<forall>c \<in> set (getChats p d). \<exists>sel \<in> set Claude_titleSelectors. \<exists>h.
            querySelector d sel = Some h \<and> Claude_qualifies (trim (textContent d h)) \<and>
            c = \<lparr>c_id = ''claude-current-chat'', c_title = preview 50 (trim (textContent d h)),
                 c_url = Some (location_href d)\<rparr>) \<and>
        (\<forall>sel \<in> set Claude_titleSelectors. \<forall>h.
            querySelector d sel = Some h \<and> Claude_qualifies (trim (textContent d h)) \<longrightarrow>
            length (getChats p d) = 1)) \<and>
     (p = Claude \<and> Claude_titleSelectors = pre @ sel # post \<and>
      (\<forall>s \<in> set pre. Claude_title_at d s = None) \<and> Claude_title_at d sel = Some title \<longrightarrow>
        getChats p d = [current_chat Claude d (preview 50 title)]) \<and>
     (p = Perplexity \<longrightarrow>
        getChats p d = input_chat d \<and>
        (\<forall>c \<in> set (getChats p d). \<exists>n v.
            querySelector d
              ''input[type=\"text\"], .search-input, [placeholder*=\"search\"], [placeholder*=\"Ask\"]'' = Some n \<and>
            node_value d n = Some v \<and> v \<noteq> [] \<and>
            c = \<lparr>c_id = ''perplexity-current-search'', c_title = v,
                 c_url = Some (location_href d)\<rparr>))"
proof
  assume h: "history p d = []"
  note g = getChats_no_history [OF h]
  have gC: "getChats p d = first_title_chat d Claude_titleSelectors" if "p = Claude"
    using g that
    by (simp add: reads_heading_def Claude_current_def Claude_titleLoop_first del: getChats.simps)
  have gP: "getChats p d = input_chat d" if "p = Perplexity"
    using g that by (simp add: reads_heading_def Perplexity_current_input del: getChats.simps)
  have gF: "getChats p d = [current_chat Claude d (preview 50 title)]"
    if "p = Claude \<and> Claude_titleSelectors = pre @ sel # post \<and>
        (\<forall>s \<in> set pre. Claude_title_at d s = None) \<and> Claude_title_at d sel = Some title"
    using that gC first_title_chat_at [of Claude_titleSelectors pre sel post d title] by simp
  from fallback_shape [of p d t] h gC gP gF
  show "length (getChats p d) \<le> 1 \<and>
     (reads_heading p \<longrightarrow> getChats p d = heading_chat p d) \<and>
     (p = ChatGPT \<or> p = Grok \<longrightarrow> \<not> names_brand p t) \<and>
     (p = DeepSeek \<longrightarrow> getChats p d = []) \<and>
     (p = Claude \<longrightarrow>
        getChats p d = first_title_chat d Claude_titleSelectors \<and>
        (\<forall>c \<in> set (getChats p d). \<exists>sel \<in> set Claude_titleSelectors. \<exists>h.
            querySelector d sel = Some h \<and> Claude_qualifies (trim (textContent d h)) \<and>
            c = \<lparr>c_id = ''claude-current-chat'', c_title = preview 50 (trim (textContent d h)),
                 c_url = Some (location_href d)\<rparr>) \<and>
        (\<forall>sel \<in> set Claude_titleSelectors. \<forall>h.
            querySelector d sel = Some h \<and> Claude_qualifies (trim (textContent d h)) \<longrightarrow>
            length (getChats p d) = 1)) \<and>
     (p = Claude \<and> Claude_titleSelectors = pre @ sel # post \<and>
      (\<forall>s \<in> set pre. Claude_title_at d s = None) \<and> Claude_title_at d sel = Some title \<longrightarrow>
        getChats p d = [current_chat Claude d (preview 50 title)]) \<and>
     (p = Perplexity \<longrightarrow>
        getChats p d = input_chat d \<and>
        (\<forall>c \<in> set (getChats p d). \<exists>n v.
            querySelector d
              ''input[type=\"text\"], .search-input, [placeholder*=\"search\"], [placeholder*=\"Ask\"]'' = Some n \<and>
            node_value d n = Some v \<and> v \<noteq> [] \<and>
            c = \<lparr>c_id = ''perplexity-current-search'', c_title = v,
                 c_url = Some (location_href d)\<rparr>))"
    by blast
qed

theorem chat_fallback_policy_witness:
  "history Gemini (heading_page ''Project Plan'') = [] \<and>
   getChats Gemini (heading_page ''Project Plan'') =
     [\<lparr>c_id = ''gemini-current-chat'', c_title = ''Project Plan'',
       c_url = Some ''https://example.test/page''\<rparr>] \<and>
   history Gemini (heading_page ''Gemini'') = [] \<and>
   getChats Gemini (heading_page ''Gemini'') = [] \<and>
   getChats DeepSeek (heading_page ''Project Plan'') = [] \<and>
   length (getChats Claude (heading_page ''Project Plan'')) = 1 \<and>
   history Claude (two_heading_page ''Project Plan'' ''Sidebar label'') = [] \<and>
   getChats Claude (two_heading_page ''Project Plan'' ''Sidebar label'') =
     [\<lparr>c_id = ''claude-current-chat'', c_title = ''Project Plan'',
       c_url = Some ''https://example.test/page''\<rparr>] \<and>
   getChats Claude (two_heading_page ''Claude'' ''Sidebar label'') =
     [\<lparr>c_id = ''claude-current-chat'', c_title = ''Sidebar label'',
       c_url = Some ''https://example.test/page''\<rparr>] \<and>
   history Perplexity search_page = [] \<and>
   getChats Perplexity search_page =
     [\<lparr>c_id = ''perplexity-current-search'', c_title = ''isabelle hol'',
       c_url = Some ''https://example.test/page''\<rparr>]"
proof -
  have r: "reads_heading Gemini"
    by (simp add: reads_heading_def)
  have a: "heading_chat Gemini (heading_page ''Project Plan'') =
     [\<lparr>c_id = ''gemini-current-chat'', c_title = ''Project Plan'',
       c_url = Some ''https://example.test/page''\<rparr>]"
    by (simp add: heading_chat_def querySelector_def names_brand_def heading_page_def
        blank_page_def trim_def is_space_def)
  have b: "heading_chat Gemini (heading_page ''Gemini'') = []"
    by (simp add: heading_chat_def querySelector_def names_brand_def heading_page_def
        blank_page_def trim_def is_space_def)
  have g: "history Gemini (heading_page ''Project Plan'') = [] \<and>
   getChats Gemini (heading_page ''Project Plan'') =
     [\<lparr>c_id = ''gemini-current-chat'', c_title = ''Project Plan'',
       c_url = Some ''https://example.test/page''\<rparr>] \<and>
   history Gemini (heading_page ''Gemini'') = [] \<and>
   getChats Gemini (heading_page ''Gemini'') = []"
    using chat_fallback_policy [of Gemini "heading_page ''Project Plan''"]
      chat_fallback_policy [of Gemini "heading_page ''Gemini''"]
      heading_page_no_history [of Gemini] r a b
    by (simp del: getChats.simps history.simps)
  have ds: "getChats DeepSeek (heading_page ''Project Plan'') = []"
    using chat_fallback_policy [of DeepSeek "heading_page ''Project Plan''"]
      heading_page_no_history [of DeepSeek "''Project Plan''"]
    by blast
  have h1: "''h1'' \<in> set Claude_titleSelectors"
    by (simp add: Claude_titleSelectors_def)
  have q: "querySelector (heading_page ''Project Plan'') ''h1'' = Some 5 \<and>
           Claude_qualifies (trim (textContent (heading_page ''Project Plan'') 5))"
    by (simp add: querySelector_def heading_page_def blank_page_def trim_def is_space_def
        Claude_qualifies_def match_start_ci_def toLowerCase_def)
  have cl: "length (getChats Claude (heading_page ''Project Plan'')) = 1"
    using chat_fallback_policy [of Claude "heading_page ''Project Plan''"]
      heading_page_no_history [of Claude "''Project Plan''"] h1 q
    by blast
  have l2: "location_href (two_heading_page x y) = ''https://example.test/page''" for x y
    by (simp add: two_heading_page_def blank_page_def)
  have f1: "first_title_chat (two_heading_page ''Project Plan'' ''Sidebar label'') Claude_titleSelectors =
     [\<lparr>c_id = ''claude-current-chat'', c_title = ''Project Plan'',
       c_url = Some ''https://example.test/page''\<rparr>]"
    using two_heading_page_titles [of "''Project Plan''" "''Sidebar label''"] plain_titles
    by (simp add: first_title_chat_def Claude_titleSelectors_def map_filter_simps
        current_chat_def preview_def l2)
  have c1: "getChats Claude (two_heading_page ''Project Plan'' ''Sidebar label'') =
     [\<lparr>c_id = ''claude-current-chat'', c_title = ''Project Plan'',
       c_url = Some ''https://example.test/page''\<rparr>]"
    using chat_fallback_policy [of Claude "two_heading_page ''Project Plan'' ''Sidebar label''"]
      two_heading_page_no_history [of "''Project Plan''" "''Sidebar label''"] f1
    by (simp del: getChats.simps history.simps)
  have pre: "Claude_titleSelectors =
      [''h1'', ''.conversation-title'', ''[class*=\"title\"]'', ''.text-xl''] @ ''.text-lg'' # []"
    by (simp add: Claude_titleSelectors_def)
  have none: "\<forall>s \<in> set [''h1'', ''.conversation-title'', ''[class*=\"title\"]'', ''.text-xl''].
      Claude_title_at (two_heading_page ''Claude'' ''Sidebar label'') s = None"
    using two_heading_page_titles [of "''Claude''" "''Sidebar label''"] plain_titles by simp
  have some: "Claude_title_at (two_heading_page ''Claude'' ''Sidebar label'') ''.text-lg'' =
      Some ''Sidebar label''"
    using two_heading_page_titles [of "''Claude''" "''Sidebar label''"] plain_titles by simp
  have "getChats Claude (two_heading_page ''Claude'' ''Sidebar label'') =
      [current_chat Claude (two_heading_page ''Claude'' ''Sidebar label'')
         (preview 50 ''Sidebar label'')]"
    using chat_fallback_policy [of Claude "two_heading_page ''Claude'' ''Sidebar label''"
        _ "[''h1'', ''.conversation-title'', ''[class*=\"title\"]'', ''.text-xl'']" "''.text-lg''" "[]"
        "''Sidebar label''"]
      two_heading_page_no_history [of "''Claude''" "''Sidebar label''"] pre none some
    by blast
  then have c2: "getChats Claude (two_heading_page ''Claude'' ''Sidebar label'') =
     [\<lparr>c_id = ''claude-current-chat'', c_title = ''Sidebar label'',
       c_url = Some ''https://example.test/page''\<rparr>]"
    by (simp add: current_chat_def preview_def l2 del: getChats.simps)
  have ph: "history Perplexity search_page = []"
    by (simp add: Perplexity_history_def Perplexity_chatItems_def search_page_def blank_page_def)
  have ic: "input_chat search_page =
     [\<lparr>c_id = ''perplexity-current-search'', c_title = ''isabelle hol'',
       c_url = Some ''https://example.test/page''\<rparr>]"
    by (simp add: input_chat_def search_input_selector_def querySelector_def search_page_def
        blank_page_def current_chat_def)
  have pc: "getChats Perplexity search_page =
     [\<lparr>c_id = ''perplexity-current-search'', c_title = ''isabelle hol'',
       c_url = Some ''https://example.test/page''\<rparr>]"
    using chat_fallback_policy [of Perplexity search_page] ph ic
    by (simp del: getChats.simps history.simps)
  show ?thesis
    using g ds cl c1 c2 ph pc two_heading_page_no_history [of "''Project Plan''" "''Sidebar label''"]
    by blast
qed

theorem chat_fallback_counterexample:
  "history DeepSeek (heading_page ''Project Plan'') = [] \<and>
   querySelector (heading_page ''Project Plan'') ''h1'' = Some 5 \<and>
   trim (textContent (heading_page ''Project Plan'') 5) = ''Project Plan'' \<and>
   getChats DeepSeek (heading_page ''Project Plan'') = [] \<and>
   history ChatGPT (heading_page ''ChatGPT'') = [] \<and>
   getChats ChatGPT (heading_page ''ChatGPT'') =
     [\<lparr>c_id = ''current-chat'', c_title = ''ChatGPT'',
       c_url = Some ''https://example.test/page''\<rparr>]"
proof -
  have a: "querySelector (heading_page ''Project Plan'') ''h1'' = Some 5 \<and>
           trim (textContent (heading_page ''Project Plan'') 5) = ''Project Plan''"
    by (simp add: querySelector_def heading_page_def blank_page_def trim_def is_space_def)
  have b: "getChats DeepSeek (heading_page ''Project Plan'') = []"
    by (simp add: DeepSeek_getChats_def DeepSeek_history_def DeepSeek_chatItems_def
        heading_page_def blank_page_def)
  have c: "getChats ChatGPT (heading_page ''ChatGPT'') =
     [\<lparr>c_id = ''current-chat'', c_title = ''ChatGPT'',
       c_url = Some ''https://example.test/page''\<rparr>]"
    by (simp add: ChatGPT_getChats_def ChatGPT_history_def ChatGPT_chatItems_def
        ChatGPT_current_def querySelector_def heading_page_def blank_page_def trim_def
        is_space_def)
  show ?thesis
    using a b c heading_page_no_history [of DeepSeek "''Project Plan''"]
      heading_page_no_history [of ChatGPT "''ChatGPT''"]
    by (simp del: history.simps getChats.simps)
qed

section \<open>The url of a chat\<close>

lemma heading_chat_url: "c \<in> set (heading_chat p d) \<Longrightarrow> c_url c = Some (location_href d)"
  by (auto simp: heading_chat_def split: option.splits if_splits)

lemma Claude_current_url: "c \<in> set (Claude_current d) \<Longrightarrow> c_url c = Some (location_href d)"
  using Claude_titleLoop_cases [of d Claude_titleSelectors]
  by (auto simp: Claude_current_def)

lemma Perplexity_current_url:
  "c \<in> set (Perplexity_current d) \<Longrightarrow> c_url c = Some (location_href d)"
  by (auto dest: Perplexity_current_cases)

text \<open>
  C7 (the url of a chat), as the code has it. Every chat synthesized by the fallback
  carries a url: the address of the current page, \<^verbatim>\<open>window.location.href\<close>. When the
  history scan finds entries, \<^verbatim>\<open>getChats\<close> returns them, and the url of each is the
  \<^verbatim>\<open>href\<close> read from its candidate (on ChatGPT, from the candidate or else its closest
  link), which is absent when the candidate has none.
\<close>

theorem chat_urls:
  "(history p d = [] \<longrightarrow> (\<forall>c \<in> set (getChats p d). c_url c = Some (location_href d))) \<and>
   (history p d \<noteq> [] \<longrightarrow> getChats p d = history p d) \<and>
   map c_url (history p d) = map (item_href p d) (filter (chat_accepted p d) (chatItems p d))"
proof (intro conjI impI ballI)
  fix c assume h: "history p d = []" and c: "c \<in> set (getChats p d)"
  from c show "c_url c = Some (location_href d)"
    by (auto simp: getChats_no_history [OF h] heading_chat_url Claude_current_url
          Perplexity_current_url simp del: getChats.simps split: if_splits)
next
  assume "history p d \<noteq> []"
  then show "getChats p d = history p d"
    by (rule getChats_history)
next
  show "map c_url (history p d) = map (item_href p d) (filter (chat_accepted p d) (chatItems p d))"
    by (rule history_urls)
qed

theorem chat_urls_witness:
  "history Grok (heading_page ''Project Plan'') = [] \<and>
   list_all (\<lambda>c. c_url c = Some ''https://example.test/page'')
     (getChats Grok (heading_page ''Project Plan'')) \<and>
   history Claude sidebar_page \<noteq> [] \<and>
   map c_url (getChats Claude sidebar_page) = [Some ''https://claude.ai/chat/42'']"
proof -
  have l: "location_href (heading_page ''Project Plan'') = ''https://example.test/page''"
    by (simp add: heading_page_def blank_page_def)
  have n: "history Claude sidebar_page \<noteq> []"
    by (simp add: sidebar_page_history)
  have u: "map c_url (history Claude sidebar_page) = [Some ''https://claude.ai/chat/42'']"
    by (simp add: sidebar_page_history)
  from chat_urls [of Grok "heading_page ''Project Plan''"] heading_page_no_history [of Grok] l
  have 1: "\<forall>c \<in> set (getChats Grok (heading_page ''Project Plan'')).
       c_url c = Some ''https://example.test/page''"
    by metis
  from chat_urls [of Claude sidebar_page] n
  have 2: "getChats Claude sidebar_page = history Claude sidebar_page"
    by blast
  show ?thesis
    using 1 2 n u heading_page_no_history [of Grok]
    by (simp add: list_all_iff del: getChats.simps history.simps)
qed

theorem chat_urls_counterexample:
  "history Grok (heading_page ''Project Plan'') = [] \<and>
   getChats Grok (heading_page ''Project Plan'') =
     [\<lparr>c_id = ''grok-current-chat'', c_title = ''Project Plan'',
       c_url = Some ''https://example.test/page''\<rparr>] \<and>
   Some ''https://example.test/page'' \<noteq> (None :: string option)"
proof -
  have c: "getChats Grok (heading_page ''Project Plan'') =
     [\<lparr>c_id = ''grok-current-chat'', c_title = ''Project Plan'',
       c_url = Some ''https://example.test/page''\<rparr>]"
    by (simp add: Grok_getChats_def Grok_history_def Grok_chatItems_def
        Grok_current_def querySelector_def heading_page_def blank_page_def trim_def
        is_space_def)
  show ?thesis
    using c heading_page_no_history [of Grok "''Project Plan''"]
    by (simp del: history.simps getChats.simps)
qed

section \<open>Ids in the rows\<close>

text \<open>
  C10 (ids bypass escaping). In the markup of \<^verbatim>\<open>renderQuestions\<close> and of
  \<^verbatim>\<open>renderChats\<close> the row of each item holds the item's id as it is, between
  \<^verbatim>\<open>data-element-id="\<close> and \<^verbatim>\<open>">\<close>; only the text or title goes through
  \<^verbatim>\<open>escapeHtml\<close>. An id that contains a double quote therefore ends the attribute
  value where the quote stands.
\<close>

theorem ids_not_escaped:
  \<open>renderQuestions (qs1 @ q # qs2) =
     concat (map (\<lambda>question. nav_item (q_id question) (escapeHtml (q_text question))) qs1) @
     [CHR 0x0A] @ ''      <div class="nav-item" data-element-id="'' @ q_id q @ ''">'' @
     [CHR 0x0A] @ ''        <div class="nav-item-text">'' @ escapeHtml (q_text q) @ row_close @
     concat (map (\<lambda>question. nav_item (q_id question) (escapeHtml (q_text question))) qs2) \<and>
   renderChats (cs1 @ c # cs2) =
     concat (map (\<lambda>chat. nav_item (c_id chat) (escapeHtml (c_title chat))) cs1) @
     [CHR 0x0A] @ ''      <div class="nav-item" data-element-id="'' @ c_id c @ ''">'' @
     [CHR 0x0A] @ ''        <div class="nav-item-text">'' @ escapeHtml (c_title c) @ row_close @
     concat (map (\<lambda>chat. nav_item (c_id chat) (escapeHtml (c_title chat))) cs2)\<close>
  by (simp add: renderQuestions_def renderChats_def nav_item_def row_open_def)

theorem ids_not_escaped_witness:
  \<open>renderQuestions [\<lparr>q_id = ''x" onclick="y'', q_text = ''a"b''\<rparr>] =
     [CHR 0x0A] @ ''      <div class="nav-item" data-element-id="x" onclick="y">'' @
     [CHR 0x0A] @ ''        <div class="nav-item-text">a"b'' @ row_close\<close>
proof -
  have e: \<open>escapeHtml ''a"b'' = ''a"b''\<close>
    by (simp add: escapeHtml_def escape_unit_def)
  show ?thesis
    using ids_not_escaped [of "[]" \<open>\<lparr>q_id = ''x" onclick="y'', q_text = ''a"b''\<rparr>\<close> "[]" "[]" _ "[]"] e
    by simp
qed

section \<open>Escaping\<close>

text \<open>
  C2 (escaping), on a page the code can meet. The one user message of the page has the
  id \<^verbatim>\<open>m" x='\<close> and the text \<^verbatim>\<open>' onclick='alert(1)'\<close>. \<^verbatim>\<open>getQuestions\<close> returns both
  as they are, and \<^verbatim>\<open>escapeHtml\<close> changes nothing in the text, which has no \<^verbatim>\<open>&\<close>,
  \<^verbatim>\<open><\<close> or \<^verbatim>\<open>>\<close>. In the markup assigned to the panel the id, written as it is, ends
  its own attribute value at its double quote and opens a single-quoted value of an
  attribute \<^verbatim>\<open>x\<close>; the first unit of the text is the single quote that closes that value,
  so the rest of the text stands inside the row's start tag, where
  \<^verbatim>\<open>onclick='alert(1)'\<close> is an attribute and not text.
\<close>

theorem escaping_violation:
  \<open>snd (getQuestions ChatGPT injection_page) =
     [\<lparr>q_id = ''m" x='' @ [CHR 0x27],
       q_text = [CHR 0x27] @ '' onclick='' @ [CHR 0x27] @ ''alert(1)'' @ [CHR 0x27]\<rparr>] \<and>
   escapeHtml ([CHR 0x27] @ '' onclick='' @ [CHR 0x27] @ ''alert(1)'' @ [CHR 0x27]) =
     [CHR 0x27] @ '' onclick='' @ [CHR 0x27] @ ''alert(1)'' @ [CHR 0x27] \<and>
   renderQuestions (snd (getQuestions ChatGPT injection_page)) =
     [CHR 0x0A] @ ''      <div class="nav-item" data-element-id="m" x='' @ [CHR 0x27] @ ''">'' @
     [CHR 0x0A] @ ''        <div class="nav-item-text">'' @
     [CHR 0x27] @ '' onclick='' @ [CHR 0x27] @ ''alert(1)'' @ [CHR 0x27] @ ''</div>'' @
     [CHR 0x0A] @ ''      </div>'' @ [CHR 0x0A] @ ''    ''\<close>
proof -
  have q: \<open>snd (ChatGPT_getQuestions injection_page) =
     [\<lparr>q_id = ''m" x='' @ [CHR 0x27],
       q_text = [CHR 0x27] @ '' onclick='' @ [CHR 0x27] @ ''alert(1)'' @ [CHR 0x27]\<rparr>]\<close>
    by (simp add: ChatGPT_getQuestions_def ChatGPT_userMessages_def ChatGPT_question_def
        injection_page_def blank_page_def trim_def is_space_def id_or_def stamp_if_absent_def
        preview_def Let_def)
  have e: \<open>escapeHtml ([CHR 0x27] @ '' onclick='' @ [CHR 0x27] @ ''alert(1)'' @ [CHR 0x27]) =
     [CHR 0x27] @ '' onclick='' @ [CHR 0x27] @ ''alert(1)'' @ [CHR 0x27]\<close>
    by (simp add: escapeHtml_def escape_unit_def)
  show ?thesis
    using e by (simp add: q renderQuestions_def nav_item_def row_open_def row_close_def)
qed

section \<open>Selection of a row that resolves to nothing\<close>

text \<open>
  C9 (unresolvable selection), on an id the code can meet. The row carries the id
  \<^verbatim>\<open>a"b\<close>; no element of the page has it, and the selector built for the second
  lookup, \<^verbatim>\<open>[data-id="a"b"]\<close>, does not parse. With the chats panel open, the click on
  the row ends in the \<^verbatim>\<open>SyntaxError\<close> of \<^verbatim>\<open>querySelector\<close>: the exception leaves
  the handler, \<^verbatim>\<open>closeAllPanels\<close> is not reached, and the panel is still open.
\<close>

theorem unresolvable_selection_raises:
  \<open>getElementById quote_page ''a"b'' = None \<and>
   data_id_selector ''a"b'' = ''[data-id="a"b"]'' \<and>
   scrollToElement quote_page ''a"b'' = Inl SyntaxError \<and>
   row_click quote_page ''a"b'' (togglePanel Chats initial_ui) =
     (Inl SyntaxError, togglePanel Chats initial_ui) \<and>
   is_open (togglePanel Chats initial_ui) Chats\<close>
  by (simp add: row_click_def scrollToElement_def getElementById_def querySelector_built_def
      data_id_selector_def quote_page_def blank_page_def is_open_def togglePanel_def
      closeAllPanels_def initial_ui_def Let_def)

section \<open>Debounce\<close>
















end
